theory Spec2Isabelle
  imports Main "HOL-Library.Word" "HOL-Library.Sublist" "HOL-Library.List_Lexorder"
    "HOL-Library.Char_ord"
begin

unbundle bit_operations_syntax

section \<open>The dedup storage backend (stored/backends/dedup\_file\_device.cc)\<close>

subsection \<open>Bytes and the two wire headers\<close>

type_synonym byte = "8 word"

text \<open>
  The structs \<open>dedup::bareos_block_header\<close> and \<open>dedup::bareos_record_header\<close> are
  declared in dedup/dedup\_config.h, which is not among the sources. The code only uses
  their \<open>sizeof\<close> and one 32-bit field of each (\<open>BlockSize\<close>, \<open>DataSize\<close>), so the
  layout is a parameter: a header is a fixed number of bytes that holds a four byte
  size field somewhere, and the byte order of that field is a parameter as well.
  A header is kept as the bytes that \<open>memcpy\<close> copied.
\<close>

record header_layout =
  field_offset :: nat
  field_tail :: nat

record wire_format =
  block_layout :: header_layout
  record_layout :: header_layout
  decode_u32 :: "byte list \<Rightarrow> 32 word"

definition header_size :: "header_layout \<Rightarrow> nat" where
  "header_size h = field_offset h + 4 + field_tail h"

definition size_field :: "wire_format \<Rightarrow> header_layout \<Rightarrow> byte list \<Rightarrow> 32 word" where
  "size_field L h bytes = decode_u32 L (take 4 (drop (field_offset h) bytes))"

definition blockheader_size :: "wire_format \<Rightarrow> nat" where
  "blockheader_size L = header_size (block_layout L)"

definition recheader_size :: "wire_format \<Rightarrow> nat" where
  "recheader_size L = header_size (record_layout L)"

definition BlockSize :: "wire_format \<Rightarrow> byte list \<Rightarrow> 32 word" where
  "BlockSize L block = size_field L (block_layout L) block"

definition DataSize :: "wire_format \<Rightarrow> byte list \<Rightarrow> 32 word" where
  "DataSize L rec = size_field L (record_layout L) rec"

subsection \<open>The volume store\<close>

text \<open>
  Modelled from the spec: the class \<open>dedup::volume\<close> (dedup/volume.h) is not among the
  sources. Sections 3 and 4.1 of the specification describe it: three append-only
  segment streams (data segments, record descriptors, block descriptors), \<open>size()\<close> the
  number of block descriptors, every operation \<open>Ok | Err\<close>, an I/O error marks the volume
  not-ok and later mutating calls fail fast, \<open>reset\<close> truncates all segments and keeps
  the configuration. The outcome of each I/O operation is read from a schedule
  \<open>vol_io\<close> carried by the volume (\<open>False\<close>: this operation fails; an exhausted
  schedule: no more failures), so every theorem holds for every pattern of I/O errors.
  A data segment rolls over when the active one would grow beyond \<open>segment_limit\<close>.
  \<open>vol_appends\<close> is a history of the volume: the arguments of every \<open>append_data\<close>
  call (block header, record header, payload), in call order, whether the call
  succeeded or not. No operation reads it; it is there to state what the codec hands
  to the volume.
\<close>

record record_header =
  rec_BareosHeader :: "byte list"
  rec_start :: nat
  rec_size :: nat
  rec_file_index :: nat

record block_header =
  blk_BareosHeader :: "byte list"
  blk_start :: nat
  blk_count :: nat

record written_loc =
  loc_file_index :: nat
  loc_begin :: nat

record volume =
  vol_name :: string
  vol_permissions :: int
  vol_blocksize :: nat
  segment_limit :: nat
  vol_blocks :: "block_header list"
  vol_records :: "record_header list"
  vol_data :: "byte list list"
  vol_ok :: bool
  vol_io :: "bool list"
  vol_appends :: "(byte list \<times> byte list \<times> byte list) list"

definition is_ok :: "volume \<Rightarrow> bool" where
  "is_ok v = vol_ok v"

definition vol_size :: "volume \<Rightarrow> 64 word" where
  "vol_size v = of_nat (length (vol_blocks v))"

definition next_io :: "volume \<Rightarrow> bool \<times> volume" where
  "next_io v =
     (case vol_io v of
        [] \<Rightarrow> (True, v)
      | b # bs \<Rightarrow> (b, v\<lparr>vol_io := bs, vol_ok := (vol_ok v \<and> b)\<rparr>))"

definition append_data ::
  "volume \<Rightarrow> byte list \<Rightarrow> byte list \<Rightarrow> byte list \<Rightarrow> written_loc option \<times> volume" where
  "append_data v block rec payload =
     (let v0 = v\<lparr>vol_appends := vol_appends v @ [(block, rec, payload)]\<rparr>
      in if \<not> vol_ok v0 then (None, v0)
         else case next_io v0 of
           (False, v') \<Rightarrow> (None, v')
         | (True, v') \<Rightarrow>
             (let segs = vol_data v' in
              if segs = [] \<or> (last segs \<noteq> [] \<and> segment_limit v' < length (last segs) + length payload)
              then (Some \<lparr>loc_file_index = length segs, loc_begin = 0\<rparr>,
                    v'\<lparr>vol_data := segs @ [payload]\<rparr>)
              else (Some \<lparr>loc_file_index = length segs - 1, loc_begin = length (last segs)\<rparr>,
                    v'\<lparr>vol_data := butlast segs @ [last segs @ payload]\<rparr>)))"

definition append_records :: "volume \<Rightarrow> record_header list \<Rightarrow> nat option \<times> volume" where
  "append_records v rs =
     (if \<not> vol_ok v then (None, v)
      else case next_io v of
        (False, v') \<Rightarrow> (None, v')
      | (True, v') \<Rightarrow> (Some (length (vol_records v')), v'\<lparr>vol_records := vol_records v' @ rs\<rparr>))"

definition append_block :: "volume \<Rightarrow> block_header \<Rightarrow> bool \<times> volume" where
  "append_block v b =
     (if \<not> vol_ok v then (False, v)
      else case next_io v of
        (False, v') \<Rightarrow> (False, v')
      | (True, v') \<Rightarrow> (True, v'\<lparr>vol_blocks := vol_blocks v' @ [b]\<rparr>))"

definition read_block :: "volume \<Rightarrow> 64 word \<Rightarrow> block_header option \<times> volume" where
  "read_block v i =
     (if length (vol_blocks v) \<le> unat i then (None, v)
      else case next_io v of
        (False, v') \<Rightarrow> (None, v')
      | (True, v') \<Rightarrow> (Some (vol_blocks v' ! unat i), v'))"

text \<open>
  \<open>read_records\<close> fills the caller's buffer of \<open>count\<close> descriptors; on failure the
  buffer is left as the caller initialised it.
\<close>

definition read_records ::
  "volume \<Rightarrow> nat \<Rightarrow> record_header list \<Rightarrow> bool \<times> record_header list \<times> volume" where
  "read_records v start buffer =
     (if length (vol_records v) < start + length buffer then (False, buffer, v)
      else case next_io v of
        (False, v') \<Rightarrow> (False, buffer, v')
      | (True, v') \<Rightarrow> (True, take (length buffer) (drop start (vol_records v')), v'))"

text \<open>
  \<open>read_data\<close> is handed the destination pointer; \<open>dest = None\<close> is the null pointer,
  into which nothing can be read.
\<close>

definition read_data ::
  "volume \<Rightarrow> nat \<Rightarrow> nat \<Rightarrow> nat \<Rightarrow> nat option \<Rightarrow> byte list option \<times> volume" where
  "read_data v file_index start sz dest =
     (if dest = None then (None, v)
      else if length (vol_data v) \<le> file_index then (None, v)
      else if length (vol_data v ! file_index) < start + sz then (None, v)
      else case next_io v of
        (False, v') \<Rightarrow> (None, v')
      | (True, v') \<Rightarrow> (Some (take sz (drop start (vol_data v' ! file_index))), v'))"

definition reset :: "volume \<Rightarrow> bool \<times> volume" where
  "reset v =
     (if \<not> vol_ok v then (False, v)
      else case next_io v of
        (False, v') \<Rightarrow> (False, v')
      | (True, v') \<Rightarrow> (True, v'\<lparr>vol_blocks := [], vol_records := [], vol_data := []\<rparr>))"

definition flush :: "volume \<Rightarrow> bool \<times> volume" where
  "flush v =
     (if \<not> vol_ok v then (False, v)
      else case next_io v of (b, v') \<Rightarrow> (b, v'))"

text \<open>
  Modelled from the spec: \<open>dedup::util::write_buffer\<close> (dedup/util.h, not among the
  sources), the bounds-checked cursor over the caller's destination memory that
  \<open>gather\<close> writes through. \<open>buf_write\<close> copies bytes at the cursor or refuses when they
  do not fit; \<open>buf_reserve\<close> hands out the region at the cursor (its offset) and moves
  the cursor past it, or yields the null pointer when it does not fit.
\<close>

record write_buffer =
  buf_mem :: "byte list"
  buf_current :: nat

definition buf_store :: "write_buffer \<Rightarrow> nat \<Rightarrow> byte list \<Rightarrow> write_buffer" where
  "buf_store buf at bytes =
     buf\<lparr>buf_mem := take at (buf_mem buf) @ bytes @ drop (at + length bytes) (buf_mem buf)\<rparr>"

definition buf_write :: "write_buffer \<Rightarrow> byte list \<Rightarrow> write_buffer option" where
  "buf_write buf bytes =
     (if length (buf_mem buf) < buf_current buf + length bytes then None
      else Some ((buf_store buf (buf_current buf) bytes)
                   \<lparr>buf_current := buf_current buf + length bytes\<rparr>))"

definition buf_reserve :: "write_buffer \<Rightarrow> nat \<Rightarrow> nat option \<times> write_buffer" where
  "buf_reserve buf n =
     (if length (buf_mem buf) < buf_current buf + n then (None, buf)
      else (Some (buf_current buf), buf\<lparr>buf_current := buf_current buf + n\<rparr>))"

subsection \<open>block\_number\<close>

definition block_number :: "32 word \<Rightarrow> 32 word \<Rightarrow> 64 word" where
  "block_number rfile rblock = push_bit 32 (ucast rfile) OR ucast rblock"

subsection \<open>scatter\<close>

text \<open>
  The \<open>while (current != end)\<close> loop of \<open>scatter\<close>. \<open>data\<close> is the caller's buffer,
  \<open>current\<close> and \<open>end\<close> are offsets from \<open>begin\<close>, \<open>recs\<close> is the vector \<open>records\<close>.
  The result is \<open>None\<close> where the source returns -1 from inside the loop, and the final
  \<open>current\<close> with the collected descriptors otherwise.
\<close>

function scatter_loop ::
  "wire_format \<Rightarrow> volume \<Rightarrow> byte list \<Rightarrow> byte list \<Rightarrow> nat \<Rightarrow> nat \<Rightarrow> record_header list
     \<Rightarrow> (nat \<times> record_header list) option \<times> volume" where
  "scatter_loop L vol block data end' current recs =
     (if current = end' then (Some (current, recs), vol)
      else if end' < current + recheader_size L then (None, vol)
      else
        (let rec = take (recheader_size L) (drop current data);
             payload_start = current + recheader_size L;
             payload_end = (if end' < payload_start + unat (DataSize L rec) then end'
                            else payload_start + unat (DataSize L rec));
             payload_size = payload_end - payload_start
         in case append_data vol block rec (take payload_size (drop payload_start data)) of
              (None, vol') \<Rightarrow> (None, vol')
            | (Some written, vol') \<Rightarrow>
                scatter_loop L vol' block data end' payload_end
                  (recs @ [\<lparr>rec_BareosHeader = rec, rec_start = loc_begin written,
                            rec_size = payload_size, rec_file_index = loc_file_index written\<rparr>])))"
  by pat_completeness auto
termination
  by (relation "measure (\<lambda>(L, vol, block, data, end', current, recs). end' - current)")
     (auto simp: recheader_size_def header_size_def split: if_splits)

definition scatter :: "wire_format \<Rightarrow> volume \<Rightarrow> byte list \<Rightarrow> int \<times> volume" where
  "scatter L vol data =
     (let sz = length data in
      if 2 ^ 32 - 1 < sz then (- 1, vol)
      else if sz < blockheader_size L then (- 1, vol)
      else
        (let block = take (blockheader_size L) data;
             bsize = unat (BlockSize L block)
         in if sz < bsize then (- 1, vol)
            else case scatter_loop L vol block data bsize (blockheader_size L) [] of
                (None, vol1) \<Rightarrow> (- 1, vol1)
              | (Some (current, recs), vol1) \<Rightarrow>
                  (case append_records vol1 recs of
                     (None, vol2) \<Rightarrow> (- 1, vol2)
                   | (Some start, vol2) \<Rightarrow>
                       (case append_block vol2
                               \<lparr>blk_BareosHeader = block, blk_start = start,
                                blk_count = length recs\<rparr> of
                          (False, vol3) \<Rightarrow> (- 1, vol3)
                        | (True, vol3) \<Rightarrow> (int current, vol3)))))"

subsection \<open>gather\<close>

text \<open>
  The \<open>for (auto& record : records)\<close> loop of \<open>gather\<close>. The flag is \<open>False\<close> where
  the source returns -1 from inside the loop; the buffer is returned as it is left.
\<close>

fun gather_loop ::
  "volume \<Rightarrow> record_header list \<Rightarrow> write_buffer \<Rightarrow> bool \<times> write_buffer \<times> volume" where
  "gather_loop vol [] buf = (True, buf, vol)"
| "gather_loop vol (r # rs) buf =
     (case buf_write buf (rec_BareosHeader r) of
        None \<Rightarrow> (False, buf, vol)
      | Some buf1 \<Rightarrow>
          (case buf_reserve buf1 (rec_size r) of
             (dest, buf2) \<Rightarrow>
               (case read_data vol (rec_file_index r) (rec_start r) (rec_size r) dest of
                  (None, vol') \<Rightarrow> (False, buf2, vol')
                | (Some bytes, vol') \<Rightarrow> gather_loop vol' rs (buf_store buf2 (the dest) bytes))))"

text \<open>
  \<open>std::vector<dedup::record_header> records(block->count)\<close> value-initialises its
  elements.
\<close>

definition zero_record :: "wire_format \<Rightarrow> record_header" where
  "zero_record L =
     \<lparr>rec_BareosHeader = replicate (recheader_size L) 0, rec_start = 0, rec_size = 0,
      rec_file_index = 0\<rparr>"

text \<open>
  \<open>gather\<close> returns the \<open>ssize_t\<close>, the destination memory as it is left, and the
  volume. The result of \<open>vol.read_records\<close> is dropped, as in the source.
\<close>

definition gather ::
  "wire_format \<Rightarrow> volume \<Rightarrow> 64 word \<Rightarrow> byte list \<Rightarrow> int \<times> byte list \<times> volume" where
  "gather L vol blocknum data =
     (case read_block vol blocknum of
        (None, vol1) \<Rightarrow> (- 1, data, vol1)
      | (Some block, vol1) \<Rightarrow>
          if length data < unat (BlockSize L (blk_BareosHeader block)) then (- 1, data, vol1)
          else
            (case buf_write \<lparr>buf_mem = data, buf_current = 0\<rparr> (blk_BareosHeader block) of
               None \<Rightarrow> (- 1, data, vol1)
             | Some buf1 \<Rightarrow>
                 (case read_records vol1 (blk_start block)
                         (replicate (blk_count block) (zero_record L)) of
                    (_, recs, vol2) \<Rightarrow>
                      (case gather_loop vol2 recs buf1 of
                         (False, buf2, vol3) \<Rightarrow> (- 1, buf_mem buf2, vol3)
                       | (True, buf2, vol3) \<Rightarrow> (int (buf_current buf2), buf_mem buf2, vol3)))))"

subsection \<open>Option parsing\<close>

text \<open>
  \<open>util::options::parse_options\<close> (stored/backends/util.h) and \<open>size_to_uint64\<close>
  (lib/edit) are not among the sources; they are parameters. \<open>parse_options\<close> yields an
  error text or the option map, given as its entries in iteration order;
  \<open>key_matches\<close> is the map's key comparison, so \<open>options.find(k)\<close> is the first entry
  whose key matches \<open>k\<close>.
\<close>

record option_util =
  parse_options :: "string \<Rightarrow> string + (string \<times> string) list"
  key_matches :: "string \<Rightarrow> string \<Rightarrow> bool"
  size_to_uint64 :: "string \<Rightarrow> 64 word option"

record dedup_options =
  blocksize :: nat
  warnings :: string

definition default_dedup_options :: dedup_options where
  "default_dedup_options = \<lparr>blocksize = 4096, warnings = []\<rparr>"

definition options_find ::
  "option_util \<Rightarrow> (string \<times> string) list \<Rightarrow> string \<Rightarrow> (string \<times> string) option" where
  "options_find U options k = find (\<lambda>kv. key_matches U (fst kv) k) options"

text \<open>The tail of \<open>parse\<close>: \<open>if (options.size() > 0) { ... }  return result;\<close>\<close>

definition unknown_options_warning :: "dedup_options \<Rightarrow> (string \<times> string) list \<Rightarrow> dedup_options" where
  "unknown_options_warning result options =
     (if 0 < length options
      then result\<lparr>warnings := warnings result @ ''Unknown options: ''
                      @ concat (map (\<lambda>(opt, _). opt @ '' '') options) @ [CHR 0x0A]\<rparr>
      else result)"

definition parse :: "option_util \<Rightarrow> string \<Rightarrow> string + dedup_options" where
  "parse U v =
     (case parse_options U v of
        Inl error \<Rightarrow> Inl error
      | Inr options \<Rightarrow>
          (case options_find U options ''blocksize'' of
             Some (k, val) \<Rightarrow>
               (case size_to_uint64 U val of
                  None \<Rightarrow> Inl (''bad block size: '' @ val)
                | Some bs \<Rightarrow>
                    Inr (unknown_options_warning (default_dedup_options\<lparr>blocksize := unat bs\<rparr>)
                           (remove1 (k, val) options)))
           | None \<Rightarrow>
               Inr (unknown_options_warning
                      (default_dedup_options
                         \<lparr>warnings := warnings default_dedup_options
                            @ ''Blocksize was not set explicitly; set to default 4k'' @ [CHR 0x0A]\<rparr>)
                      options)))"

subsection \<open>The device facade\<close>

datatype DeviceMode =
  CREATE_READ_WRITE | OPEN_READ_WRITE | OPEN_READ_ONLY | OPEN_WRITE_ONLY | UNDEFINED_MODE

text \<open>
  What the device reads from its surroundings: the daemon resource
  (\<open>me->secure_erase_cmdline\<close>), the option helpers, and the file system. The file system
  answers as an oracle: \<open>stored\<close> is what a volume directory holds when it is opened,
  \<open>fresh_io\<close> the I/O schedule of a volume that is opened or created, \<open>directory\<close> the
  entries \<open>recursive_directory_iterator\<close> yields (path and \<open>is_directory\<close>; \<open>None\<close>: it
  throws \<open>filesystem_error\<close>), \<open>SecureErase\<close> the result of erasing one file, and
  \<open>fs_remove\<close> the result of \<open>std::filesystem::remove\<close> (\<open>None\<close>: it throws).
\<close>

record host =
  secure_erase_cmdline :: "string option"
  util :: option_util
  stored :: "string \<Rightarrow> volume option"
  fresh_io :: "bool list"
  new_segment_limit :: nat
  directory :: "string \<Rightarrow> (string \<times> bool) list option"
  SecureErase :: "string \<Rightarrow> int"
  fs_remove :: "string \<Rightarrow> bool option"

text \<open>
  Modelled from the spec: the constructor \<open>dedup::volume(path, open_mode, permissions,
  blocksize)\<close> (section 4.1, \<open>open\<close>). Creating starts from empty segments and writes the
  configuration with the requested block size; opening takes what the directory holds
  and fails when the stored block size differs from the requested one. Either way it
  is one I/O operation, and failure shows as \<open>is_ok\<close> being false.
\<close>

definition empty_volume :: "host \<Rightarrow> string \<Rightarrow> int \<Rightarrow> nat \<Rightarrow> volume" where
  "empty_volume H path perm bs =
     \<lparr>vol_name = path, vol_permissions = perm, vol_blocksize = bs,
      segment_limit = new_segment_limit H, vol_blocks = [], vol_records = [], vol_data = [],
      vol_ok = True, vol_io = fresh_io H, vol_appends = []\<rparr>"

definition volume_ctor :: "host \<Rightarrow> string \<Rightarrow> DeviceMode \<Rightarrow> int \<Rightarrow> nat \<Rightarrow> volume" where
  "volume_ctor H path mode perm bs =
     (if mode = CREATE_READ_WRITE then snd (next_io (empty_volume H path perm bs))
      else case stored H path of
        None \<Rightarrow> (empty_volume H path perm bs)\<lparr>vol_ok := False\<rparr>
      | Some v \<Rightarrow>
          if vol_blocksize v \<noteq> bs then v\<lparr>vol_ok := False\<rparr>
          else snd (next_io (v\<lparr>vol_ok := True, vol_io := fresh_io H\<rparr>)))"

definition name :: "volume \<Rightarrow> string" where
  "name v = vol_name v"

definition get_permissions :: "volume \<Rightarrow> int" where
  "get_permissions v = vol_permissions v"

record dedup_file_device =
  mounted :: bool
  open_volume :: "volume option"
  open_mode :: DeviceMode
  dev_file :: "32 word"
  block_num :: "32 word"
  file_addr :: "64 word"
  fd_ctr :: int
  fd :: int
  eot :: bool
  dev_options :: "string option"
  dedup_block_size :: nat

definition SetEot :: "dedup_file_device \<Rightarrow> dedup_file_device" where
  "SetEot dev = dev\<lparr>eot := True\<rparr>"

definition ClearEot :: "dedup_file_device \<Rightarrow> dedup_file_device" where
  "ClearEot dev = dev\<lparr>eot := False\<rparr>"

datatype message = Emsg string string

text \<open>
  \<open>++fd_ctr\<close> on the \<open>int\<close> counter. Overflow of a signed \<open>int\<close> is undefined in C++;
  the model wraps around as two's complement hardware does.
\<close>

definition next_fd :: "int \<Rightarrow> int" where
  "next_fd n = (if n = 2147483647 then - 2147483648 else n + 1)"

text \<open>
  \<open>d_open\<close> returns the descriptor, the device and the messages it emitted. The two
  unnamed \<open>int\<close> parameters of the source are \<open>flags\<close> (unused) and \<open>mode\<close>, the
  permissions.
\<close>

definition d_open ::
  "host \<Rightarrow> dedup_file_device \<Rightarrow> string \<Rightarrow> int \<Rightarrow> int \<times> dedup_file_device \<times> message list" where
  "d_open H dev path mode =
     (if open_volume dev \<noteq> None then (- 1, dev, [])
      else if open_mode dev = UNDEFINED_MODE
      then (- 1, dev, [Emsg ''M_ABORT'' (''Illegal mode given to open dev.'' @ [CHR 0x0A])])
      else case dev_options dev of
        None \<Rightarrow> (- 1, dev, [Emsg ''M_FATAL'' (''No dedup device options specified. Cannot continue''
                                             @ [CHR 0x0A])])
      | Some opts \<Rightarrow>
          (case parse (util H) opts of
             Inl emsg \<Rightarrow> (- 1, dev, [Emsg ''M_FATAL'' (''Dedup device options error: '' @ emsg
                                                   @ [CHR 0x0A])])
           | Inr options \<Rightarrow>
               (let msgs = (if warnings options \<noteq> []
                            then [Emsg ''M_WARNING'' (''Dedup device option warning: ''
                                                        @ warnings options @ [CHR 0x0A])]
                            else []);
                    vol = volume_ctor H path (open_mode dev) mode (blocksize options)
                in if is_ok vol
                   then (next_fd (fd_ctr dev),
                         dev\<lparr>open_volume := Some vol, fd_ctr := next_fd (fd_ctr dev)\<rparr>, msgs)
                   else (- 1, dev\<lparr>open_volume := None\<rparr>, msgs))))"

text \<open>
  \<open>d_write\<close>, \<open>d_read\<close> and the other operations that \<open>ASSERT(vol.is_ok())\<close> yield \<open>None\<close>
  where the assertion fails (the daemon stops there), and their result with the device
  as it is left otherwise.
\<close>

definition d_write ::
  "wire_format \<Rightarrow> dedup_file_device \<Rightarrow> int \<Rightarrow> byte list \<Rightarrow> (int \<times> dedup_file_device) option" where
  "d_write L dev fd' data =
     (if fd' \<noteq> fd_ctr dev then Some (- 1, dev)
      else case open_volume dev of
        None \<Rightarrow> Some (- 1, dev)
      | Some vol \<Rightarrow>
          if \<not> is_ok vol then None
          else
            (let dev1 = SetEot dev;
                 current_block = block_number (dev_file dev1) (block_num dev1);
                 vol1 = (if current_block = 0 \<and> vol_size vol = 1 then snd (reset vol) else vol)
             in if current_block \<noteq> vol_size vol1
                then Some (- 1, dev1\<lparr>open_volume := Some vol1\<rparr>)
                else case scatter L vol1 data of
                  (n, vol2) \<Rightarrow> Some (n, dev1\<lparr>open_volume := Some vol2\<rparr>)))"

definition d_read ::
  "wire_format \<Rightarrow> dedup_file_device \<Rightarrow> int \<Rightarrow> byte list
     \<Rightarrow> (int \<times> byte list \<times> dedup_file_device) option" where
  "d_read L dev fd' data =
     (if fd' \<noteq> fd_ctr dev then Some (- 1, data, dev)
      else case open_volume dev of
        None \<Rightarrow> Some (- 1, data, dev)
      | Some vol \<Rightarrow>
          if \<not> is_ok vol then None
          else
            (let block = block_number (dev_file dev) (block_num dev)
             in case gather L vol block data of
               (bytes_written, data', vol') \<Rightarrow>
                 (let dev1 = dev\<lparr>open_volume := Some vol'\<rparr>
                  in Some (bytes_written, data',
                           if block + 1 = vol_size vol' then SetEot dev1 else ClearEot dev1))))"

definition d_close :: "dedup_file_device \<Rightarrow> int \<Rightarrow> int \<times> dedup_file_device" where
  "d_close dev fd' =
     (if fd' \<noteq> fd_ctr dev then (- 1, dev)
      else case open_volume dev of
        None \<Rightarrow> (- 1, dev)
      | Some vol \<Rightarrow> (0, dev\<lparr>open_volume := None\<rparr>))"

text \<open>
  The remaining operations of the facade. A \<open>bool\<close> function that executes \<open>return -1\<close>
  returns \<open>true\<close>. (\<open>dev_file\<close> is the member \<open>file\<close>: the word is reserved here.)
\<close>

datatype fs_event = Erased string | Removed string | DeleteError string

text \<open>The first loop of \<open>delete_volume\<close>: collect the files, give up at a directory.\<close>

fun collect_files :: "(string \<times> bool) list \<Rightarrow> string list option" where
  "collect_files [] = Some []"
| "collect_files ((p, is_directory) # es) =
     (if is_directory then None
      else case collect_files es of None \<Rightarrow> None | Some files \<Rightarrow> Some (p # files))"

text \<open>The second loop: erase each file, stop at the first that fails.\<close>

fun erase_files :: "host \<Rightarrow> string list \<Rightarrow> bool \<times> fs_event list" where
  "erase_files H [] = (True, [])"
| "erase_files H (f # fs) =
     (if SecureErase H f \<noteq> 0 then (False, [Erased f])
      else case erase_files H fs of (b, evs) \<Rightarrow> (b, Erased f # evs))"

definition delete_volume :: "host \<Rightarrow> string \<Rightarrow> bool \<times> fs_event list" where
  "delete_volume H path =
     (case directory H path of
        None \<Rightarrow> (False, [DeleteError path])
      | Some entries \<Rightarrow>
          (case collect_files entries of
             None \<Rightarrow> (False, [])
           | Some files \<Rightarrow>
               (case erase_files H files of
                  (False, evs) \<Rightarrow> (False, evs)
                | (True, evs) \<Rightarrow>
                    (case fs_remove H path of
                       None \<Rightarrow> (False, evs @ [Removed path, DeleteError path])
                     | Some False \<Rightarrow> (False, evs @ [Removed path])
                     | Some True \<Rightarrow> (True, evs @ [Removed path])))))"

definition d_truncate ::
  "host \<Rightarrow> dedup_file_device \<Rightarrow> (bool \<times> dedup_file_device \<times> fs_event list) option" where
  "d_truncate H dev =
     (case open_volume dev of
        None \<Rightarrow> Some (True, dev, [])
      | Some vol \<Rightarrow>
          if \<not> is_ok vol then None
          else if secure_erase_cmdline H = None
          then (case reset vol of (b, vol') \<Rightarrow> Some (b, dev\<lparr>open_volume := Some vol'\<rparr>, []))
          else
            (let volume_path = name vol;
                 perm = get_permissions vol;
                 dev1 = dev\<lparr>open_volume := None\<rparr>
             in case delete_volume H volume_path of
                  (False, evs) \<Rightarrow> Some (False, dev1, evs)
                | (True, evs) \<Rightarrow>
                    (let dev2 = dev1\<lparr>open_mode := CREATE_READ_WRITE\<rparr>;
                         vol' = volume_ctor H volume_path (open_mode dev2) perm (dedup_block_size dev2)
                     in if \<not> is_ok vol'
                        then Some (False, dev2\<lparr>open_volume := None, fd := - 1\<rparr>, evs)
                        else Some (True, dev2\<lparr>open_volume := Some vol'\<rparr>, evs))))"

definition UpdatePos :: "dedup_file_device \<Rightarrow> bool" where
  "UpdatePos dev = True"

definition rewind :: "dedup_file_device \<Rightarrow> (bool \<times> dedup_file_device) option" where
  "rewind dev =
     (case open_volume dev of
        None \<Rightarrow> Some (True, dev)
      | Some vol \<Rightarrow>
          if \<not> is_ok vol then None
          else
            (let dev1 = dev\<lparr>block_num := 0, dev_file := 0, file_addr := 0\<rparr>;
                 dev2 = (if vol_size vol = 0 then SetEot dev1 else ClearEot dev1)
             in Some (UpdatePos dev2, dev2)))"

definition Reposition ::
  "dedup_file_device \<Rightarrow> 32 word \<Rightarrow> 32 word \<Rightarrow> (bool \<times> dedup_file_device) option" where
  "Reposition dev rfile rblock =
     (case open_volume dev of
        None \<Rightarrow> Some (True, dev)
      | Some vol \<Rightarrow>
          if \<not> is_ok vol then None
          else
            (let dev1 = dev\<lparr>block_num := rblock, dev_file := rfile\<rparr>;
                 dev2 = (if block_number (dev_file dev1) (block_num dev1) = vol_size vol
                         then SetEot dev1 else ClearEot dev1)
             in Some (UpdatePos dev2, dev2)))"

definition eod :: "dedup_file_device \<Rightarrow> (bool \<times> dedup_file_device) option" where
  "eod dev =
     (case open_volume dev of
        None \<Rightarrow> Some (True, dev)
      | Some vol \<Rightarrow>
          if \<not> is_ok vol then None
          else
            (let block = vol_size vol;
                 dev1 = SetEot (dev\<lparr>block_num := ucast block, dev_file := ucast (drop_bit 32 block)\<rparr>)
             in Some (UpdatePos dev1, dev1)))"

definition d_flush :: "dedup_file_device \<Rightarrow> (bool \<times> dedup_file_device) option" where
  "d_flush dev =
     (case open_volume dev of
        None \<Rightarrow> Some (True, dev)
      | Some vol \<Rightarrow>
          if \<not> is_ok vol then None
          else case flush vol of (b, vol') \<Rightarrow> Some (b, dev\<lparr>open_volume := Some vol'\<rparr>))"

section \<open>Virtual backup in the director (dird/vbackup.cc)\<close>

subsection \<open>Job records, the catalog and the job control record\<close>

datatype job_status =
  JS_Terminated | JS_Warnings | JS_FatalError | JS_ErrorTerminated | JS_Canceled
  | JS_Running | JS_WaitSD | JS_Other char

record JobDbRecord =
  JobId :: nat
  JobLevel :: int
  jr_JobStatus :: job_status
  jr_Type :: string
  ClientId :: nat
  FileSetId :: nat
  PoolId :: nat
  PurgedFiles :: int
  StartTime :: nat
  cStartTime :: string
  cEndTime :: string
  JobTDate :: nat

text \<open>
  The fields of \<open>JobControlRecord\<close> and \<open>jcr->impl\<close> that \<open>DoNativeVbackup\<close> and
  \<open>NativeVbackupCleanup\<close> read or write. The storage lists and the socket are pointers
  that are only tested for null.
\<close>

record JobControlRecord =
  jcr_JobId :: nat
  Job :: string
  JobStatus :: job_status
  accurate :: bool
  JobFiles :: nat
  JobBytes :: nat
  JobErrors :: nat
  start_time :: nat
  read_storage_list :: "string list option"
  write_storage_list :: "string list option"
  vf_jobids :: "string option"
  jr :: JobDbRecord
  previous_jr :: JobDbRecord
  ExpectedFiles :: nat
  SDJobStatus :: job_status
  SDJobFiles :: nat
  SDJobBytes :: nat
  SDErrors :: nat
  SD_msg_chan_started :: bool
  store_bsock :: bool
  AlwaysIncremental :: bool
  AlwaysIncrementalJobRetention :: nat
  client_name :: string

text \<open>
  Everything the two functions do to the outside is an event of a trace, in program
  order: the job messages (\<open>Jmsg\<close>, with the message type and the formatted text) and
  the calls into the storage daemon connection, the catalog and the bootstrap code.
  Debug output (\<open>Dmsg\<close>) is left out.
\<close>

datatype msg_type = M_INFO | M_WARNING | M_ERROR | M_FATAL

datatype event =
  Jmsg msg_type string
  | SqlQuery string
  | UpdateJobStartRecord_call JobDbRecord
  | UpdateJobEnd_call JobDbRecord job_status
  | GetFileList_call string
  | AddVolumeInformationToBsr_call
  | WriteBsrFile_call "(nat \<times> int) list"
  | ConnectToStorageDaemon_call
  | StartStorageDaemonJob_call
  | fsend_call string
  | StartStorageDaemonMessageThread_call
  | WaitForStorageDaemonTermination_call
  | WriteBatchFileRecords_call
  | PurgeJobsFromCatalog_call string
  | UpdateBootstrapFile_call
  | signal_BNET_TERMINATE
  | pthread_cancel_call
  | GenerateBackupSummary_call msg_type string

text \<open>
  What the director code calls but the sources do not contain is a parameter: the
  string helpers of lib/, the status logic of \<open>setJobStatus\<close>, the clock, and the
  answers of the storage daemon connection and of the bootstrap and batch code.
  \<open>UpdateJobStartRecord\<close> and \<open>UpdateJobEnd\<close> write the job record to the job's own
  catalog row in a way that is a parameter (the row keeps its key); \<open>UpdateJobEnd\<close>
  (dird/job.cc) also sets the job status from the termination code and may change the
  job record.
\<close>

record sd_termination =
  sd_JobStatus :: job_status
  sd_JobFiles :: nat
  sd_JobBytes :: nat
  sd_Errors :: nat
  sd_JobErrors :: nat

record file_row =
  fr_Path :: string
  fr_Filename :: string
  fr_FileIndex :: string
  fr_JobId :: string
  fr_LStat :: string

record dird_env =
  split_string :: "string \<Rightarrow> char \<Rightarrow> string list"
  str_to_int64 :: "string \<Rightarrow> int"
  edit_uint64 :: "nat \<Rightarrow> string"
  job_level_to_str :: "int \<Rightarrow> string"
  status_char :: "job_status \<Rightarrow> char"
  setJobStatus :: "job_status \<Rightarrow> job_status \<Rightarrow> job_status"
  time_now :: nat
  db_strerror :: string
  AccurateGetJobids :: "JobDbRecord list \<Rightarrow> JobDbRecord \<Rightarrow> string"
  UpdateJobStartRecord_row :: "JobDbRecord \<Rightarrow> JobDbRecord \<Rightarrow> JobDbRecord"
  UpdateJobEnd_jcr :: "JobDbRecord \<Rightarrow> job_status \<Rightarrow> job_status \<Rightarrow> job_status \<times> JobDbRecord"
  UpdateJobEnd_row :: "JobDbRecord \<Rightarrow> JobDbRecord \<Rightarrow> JobDbRecord"
  FillQuery_recent_version :: "string \<Rightarrow> string"
  PurgeJobsFromCatalog :: "string \<Rightarrow> JobDbRecord list \<Rightarrow> JobDbRecord list"
  OpenBatchConnection :: bool
  GetFileList :: "string \<Rightarrow> bool \<times> file_row list"
  WriteBsrFile :: "(nat \<times> int) list \<Rightarrow> nat"
  ConnectToStorageDaemon :: bool
  StartStorageDaemonJob :: bool
  fsend_run :: bool
  StartStorageDaemonMessageThread :: bool
  WaitForStorageDaemonTermination :: sd_termination
  replicate_deleted_files :: bool
  GetClientRecord :: bool

record world =
  jcr :: JobControlRecord
  catalog :: "JobDbRecord list"
  trace :: "event list"

definition emit :: "event \<Rightarrow> world \<Rightarrow> world" where
  "emit e w = w\<lparr>trace := trace w @ [e]\<rparr>"

definition NL :: string where
  "NL = [CHR 0x0A]"

subsection \<open>The catalog\<close>

text \<open>
  Modelled from the spec: the catalog (\<open>jcr->db\<close>, cats/) is not among the sources.
  Section 6 gives its contract. The Job table is a list of rows. The catalog returns
  column values as text, an integer column in decimal. \<open>GetJobRecord\<close> finds the row
  with the record's JobId. The consistency query selects the rows whose JobId is one
  of the listed numbers. The \<open>UPDATE\<close> of \<open>NativeVbackupCleanup\<close> sets the three
  columns of the rows with the given JobId. The catalog executes each statement;
  a statement on a missing row changes nothing.
\<close>

fun decimal :: "nat \<Rightarrow> string" where
  "decimal n = (if n < 10 then [''0123456789'' ! n]
                else decimal (n div 10) @ [''0123456789'' ! (n mod 10)])"

definition decimal_int :: "int \<Rightarrow> string" where
  "decimal_int i = (if i < 0 then CHR ''-'' # decimal (nat (- i)) else decimal (nat i))"

record job_row_text =
  col_JobId :: string
  col_Type :: string
  col_ClientId :: string
  col_FilesetId :: string
  col_PurgedFiles :: string

definition row_text :: "JobDbRecord \<Rightarrow> job_row_text" where
  "row_text r =
     \<lparr>col_JobId = decimal (JobId r), col_Type = jr_Type r, col_ClientId = decimal (ClientId r),
      col_FilesetId = decimal (FileSetId r), col_PurgedFiles = decimal_int (PurgedFiles r)\<rparr>"

definition to_JobId :: "int \<Rightarrow> nat" where
  "to_JobId v = nat (v mod 2 ^ 32)"

text \<open>
  Narrowing to a 32-bit \<open>int\<close>, and \<open>%d\<close> applied to a 32-bit unsigned value
  (\<open>JobId\<close>, \<open>ExpectedFiles\<close>): the value is printed as the signed \<open>int\<close> with the same
  bits.
\<close>

definition to_int32 :: "int \<Rightarrow> int" where
  "to_int32 v = sint (word_of_int v :: 32 word)"

definition format_d :: "nat \<Rightarrow> string" where
  "format_d n = decimal_int (to_int32 (int n))"

definition consistency_rows :: "dird_env \<Rightarrow> JobDbRecord list \<Rightarrow> string \<Rightarrow> job_row_text list" where
  "consistency_rows E cat jobids =
     map row_text
       (filter (\<lambda>r. JobId r \<in> set (map (\<lambda>s. to_JobId (str_to_int64 E s))
                                        (split_string E jobids CHR '','')))
          cat)"

definition GetJobRecord :: "JobDbRecord list \<Rightarrow> JobDbRecord \<Rightarrow> bool \<times> JobDbRecord" where
  "GetJobRecord cat rec =
     (case find (\<lambda>r. JobId r = JobId rec) cat of
        None \<Rightarrow> (False, rec)
      | Some r \<Rightarrow> (True, r))"

definition update_job_times ::
  "JobDbRecord list \<Rightarrow> nat \<Rightarrow> string \<Rightarrow> string \<Rightarrow> nat \<Rightarrow> JobDbRecord list" where
  "update_job_times cat jobid st et td =
     map (\<lambda>r. if JobId r = jobid then r\<lparr>cStartTime := st, cEndTime := et, JobTDate := td\<rparr> else r)
       cat"

definition update_own_row ::
  "JobDbRecord list \<Rightarrow> nat \<Rightarrow> (JobDbRecord \<Rightarrow> JobDbRecord) \<Rightarrow> JobDbRecord list" where
  "update_own_row cat jobid f =
     map (\<lambda>r. if JobId r = jobid then (f r)\<lparr>JobId := jobid\<rparr> else r) cat"

subsection \<open>JobConsistencyChecker\<close>

record JobConsistencyChecker =
  JobList :: "string list"
  JobsWithPurgedFiles :: "string list"

definition first_char :: "string \<Rightarrow> char" where
  "first_char s = (case s of [] \<Rightarrow> CHR 0x00 | c # _ \<Rightarrow> c)"

text \<open>\<open>operator()\<close>, the row handler; it always returns \<open>true\<close>.\<close>

definition cc_handler :: "JobConsistencyChecker \<Rightarrow> job_row_text \<Rightarrow> JobConsistencyChecker" where
  "cc_handler cc row =
     (let cc1 = cc\<lparr>JobList := JobList cc @ [col_JobId row]\<rparr>
      in if first_char (col_PurgedFiles row) \<noteq> CHR ''0''
         then cc1\<lparr>JobsWithPurgedFiles := JobsWithPurgedFiles cc1 @ [col_JobId row]\<rparr>
         else cc1)"

definition CheckNumJobs :: "JobConsistencyChecker \<Rightarrow> nat \<Rightarrow> bool" where
  "CheckNumJobs cc t_NumJobs = (length (JobList cc) = t_NumJobs)"

fun set_difference :: "string list \<Rightarrow> string list \<Rightarrow> string list" where
  "set_difference [] ys = []"
| "set_difference (x # xs) [] = x # xs"
| "set_difference (x # xs) (y # ys) =
     (if x < y then x # set_difference xs (y # ys)
      else if y < x then set_difference (x # xs) ys
      else set_difference xs ys)"

definition JobListDiff :: "JobConsistencyChecker \<Rightarrow> string list \<Rightarrow> string list" where
  "JobListDiff cc FullJobList = set_difference (sort FullJobList) (sort (JobList cc))"

definition CheckPurgedFiles :: "JobConsistencyChecker \<Rightarrow> bool" where
  "CheckPurgedFiles cc = (JobsWithPurgedFiles cc = [])"

subsection \<open>GetVfJobids and CreateBootstrapFile\<close>

definition GetVfJobids :: "dird_env \<Rightarrow> world \<Rightarrow> string" where
  "GetVfJobids E w =
     (case vf_jobids (jcr w) of
        Some ids \<Rightarrow> ids
      | None \<Rightarrow> AccurateGetJobids E (catalog w) (jr (jcr w)))"

text \<open>
  The bootstrap record is the sequence of \<open>AddFindex\<close> calls (dird/bsr.cc is not among
  the sources).
\<close>

definition InsertBootstrapHandler ::
  "dird_env \<Rightarrow> (nat \<times> int) list \<Rightarrow> file_row \<Rightarrow> (nat \<times> int) list" where
  "InsertBootstrapHandler E bsr row =
     bsr @ [(to_JobId (str_to_int64 E (fr_JobId row)),
             to_int32 (str_to_int64 E (fr_FileIndex row)))]"

definition CreateBootstrapFile :: "dird_env \<Rightarrow> world \<Rightarrow> string \<Rightarrow> bool \<times> world" where
  "CreateBootstrapFile E w jobids =
     (if \<not> OpenBatchConnection E
      then (False, emit (Jmsg M_FATAL (''Can'' @ [CHR 0x27] @ ''t get batch sql connexion'')) w)
      else
        (let w1 = emit (GetFileList_call jobids) w;
             bsr = foldl (InsertBootstrapHandler E) [] (snd (GetFileList E jobids));
             w2 = (if \<not> fst (GetFileList E jobids) then emit (Jmsg M_ERROR (db_strerror E)) w1
                   else w1);
             w3 = emit AddVolumeInformationToBsr_call w2;
             w4 = emit (WriteBsrFile_call bsr) w3;
             w5 = w4\<lparr>jcr := (jcr w4)\<lparr>ExpectedFiles := WriteBsrFile E bsr\<rparr>\<rparr>
         in (ExpectedFiles (jcr w5) \<noteq> 0, w5)))"

subsection \<open>NativeVbackupCleanup\<close>

definition set_status :: "dird_env \<Rightarrow> job_status \<Rightarrow> world \<Rightarrow> world" where
  "set_status E st w = w\<lparr>jcr := (jcr w)\<lparr>JobStatus := setJobStatus E (JobStatus (jcr w)) st\<rparr>\<rparr>"

definition do_UpdateJobEnd :: "dird_env \<Rightarrow> world \<Rightarrow> job_status \<Rightarrow> world" where
  "do_UpdateJobEnd E w TermCode =
     (let j = jcr w;
          w1 = emit (UpdateJobEnd_call (jr j) TermCode) w;
          res = UpdateJobEnd_jcr E (jr j) (JobStatus j) TermCode
      in w1\<lparr>jcr := j\<lparr>JobStatus := fst res, jr := snd res\<rparr>,
             catalog := update_own_row (catalog w1) (jcr_JobId j) (UpdateJobEnd_row E (snd res))\<rparr>)"

definition apostrophe :: string where
  "apostrophe = [CHR 0x27]"

definition update_times_query :: "dird_env \<Rightarrow> JobControlRecord \<Rightarrow> string" where
  "update_times_query E j =
     ''UPDATE Job SET StartTime='' @ apostrophe @ cStartTime (previous_jr j) @ apostrophe
       @ '',EndTime='' @ apostrophe @ cEndTime (previous_jr j) @ apostrophe
       @ '',JobTDate='' @ edit_uint64 E (JobTDate (previous_jr j))
       @ '' WHERE JobId='' @ edit_uint64 E (jcr_JobId j)"

definition replicate_query :: "dird_env \<Rightarrow> JobControlRecord \<Rightarrow> string \<Rightarrow> string" where
  "replicate_query E j ids =
     ''INSERT INTO File (FileIndex, JobId, PathId, LStat, MD5, Name) ''
       @ ''SELECT FileIndex, '' @ decimal (jcr_JobId j) @ '' AS JobId, ''
       @ ''PathId, LStat, MD5, Name FROM ('' @ FillQuery_recent_version E ids @ '') T ''
       @ ''WHERE FileIndex = 0''"

text \<open>The final \<open>switch (jcr->JobStatus)\<close>: the summary's message type and text.\<close>

definition termination_report :: "dird_env \<Rightarrow> world \<Rightarrow> world" where
  "termination_report E w =
     (let st = JobStatus (jcr w);
          stop_sd = (\<lambda>w. if store_bsock (jcr w)
                          then (let w1 = emit signal_BNET_TERMINATE w
                                in if SD_msg_chan_started (jcr w1) then emit pthread_cancel_call w1
                                   else w1)
                          else w)
      in if st = JS_Terminated then emit (GenerateBackupSummary_call M_INFO ''Backup OK'') w
         else if st = JS_Warnings
         then emit (GenerateBackupSummary_call M_INFO ''Backup OK -- with warnings'') w
         else if st = JS_FatalError \<or> st = JS_ErrorTerminated
         then emit (GenerateBackupSummary_call M_ERROR ''*** Backup Error ***'') (stop_sd w)
         else if st = JS_Canceled
         then emit (GenerateBackupSummary_call M_INFO ''Backup Canceled'') (stop_sd w)
         else emit (GenerateBackupSummary_call M_INFO
                      (''Inappropriate term code: '' @ [status_char E st] @ NL)) w)"

text \<open>
  The second half of \<open>NativeVbackupCleanup\<close>, step by step: get the fully updated job
  record, replicate the deleted files, get the client record, update the bootstrap file
  and report.
\<close>

definition cleanup_refetch :: "dird_env \<Rightarrow> world \<Rightarrow> world" where
  "cleanup_refetch E w =
     (case GetJobRecord (catalog w) (jr (jcr w)) of
        (True, rec) \<Rightarrow> w\<lparr>jcr := (jcr w)\<lparr>jr := rec\<rparr>\<rparr>
      | (False, rec) \<Rightarrow>
          set_status E JS_ErrorTerminated
            (emit (Jmsg M_WARNING
                     (''Error getting Job record for Job report: ERR='' @ db_strerror E @ NL)) w))"

definition cleanup_replicate :: "dird_env \<Rightarrow> world \<Rightarrow> world" where
  "cleanup_replicate E w =
     (case vf_jobids (jcr w) of
        None \<Rightarrow> w
      | Some ids \<Rightarrow>
          if ids = [] then w
          else
            (let w1 = emit (Jmsg M_INFO
                         (''Replicating deleted files from jobids '' @ ids @ '' to jobid ''
                            @ format_d (jcr_JobId (jcr w)) @ NL)) w;
                 w2 = emit (SqlQuery (replicate_query E (jcr w1) ids)) w1
             in if \<not> replicate_deleted_files E
                then emit (Jmsg M_WARNING
                       (''Error replicating deleted files: ERR='' @ db_strerror E @ NL)) w2
                else w2))"

definition cleanup_client :: "dird_env \<Rightarrow> world \<Rightarrow> world" where
  "cleanup_client E w =
     (if \<not> GetClientRecord E
      then emit (Jmsg M_WARNING
             (''Error getting Client record for Job report: ERR='' @ db_strerror E @ NL)) w
      else w)"

definition cleanup_report :: "dird_env \<Rightarrow> world \<Rightarrow> world" where
  "cleanup_report E w =
     termination_report E
       (emit UpdateBootstrapFile_call
          (cleanup_client E (cleanup_replicate E (cleanup_refetch E w))))"

definition NativeVbackupCleanup :: "dird_env \<Rightarrow> world \<Rightarrow> job_status \<Rightarrow> int \<Rightarrow> world" where
  "NativeVbackupCleanup E w TermCode level =
     (let w1 = (if JobStatus (jcr w) = JS_Terminated \<or> JobStatus (jcr w) = JS_Warnings
                then emit (Jmsg M_INFO
                             (''Joblevel was set to joblevel of first consolidated job: ''
                                @ job_level_to_str E level @ NL))
                       (w\<lparr>jcr := (jcr w)\<lparr>jr := (jr (jcr w))\<lparr>JobLevel := level\<rparr>\<rparr>\<rparr>)
                else w);
          w2 = w1\<lparr>jcr := (jcr w1)\<lparr>JobFiles := SDJobFiles (jcr w1), JobBytes := SDJobBytes (jcr w1)\<rparr>\<rparr>;
          TermCode1 = (if JobStatus (jcr w2) = JS_Terminated
                          \<and> (JobErrors (jcr w2) \<noteq> 0 \<or> SDErrors (jcr w2) \<noteq> 0)
                       then JS_Warnings else TermCode);
          w3 = do_UpdateJobEnd E w2 TermCode1;
          w4 = (emit (SqlQuery (update_times_query E (jcr w3))) w3)
                 \<lparr>catalog := update_job_times (catalog w3) (jcr_JobId (jcr w3))
                                (cStartTime (previous_jr (jcr w3))) (cEndTime (previous_jr (jcr w3)))
                                (JobTDate (previous_jr (jcr w3)))\<rparr>
      in cleanup_report E w4)"

subsection \<open>DoNativeVbackup\<close>

definition empty_JobDbRecord :: JobDbRecord where
  "empty_JobDbRecord =
     \<lparr>JobId = 0, JobLevel = 0, jr_JobStatus = JS_Other (CHR 0x00), jr_Type = [], ClientId = 0,
      FileSetId = 0, PoolId = 0, PurgedFiles = 0, StartTime = 0, cStartTime = [], cEndTime = [],
      JobTDate = 0\<rparr>"

text \<open>
  \<open>DoNativeVbackup\<close> is one function in the source; it is written here in parts that
  follow each other: the conversation with the storage daemon (\<open>storage_daemon_job\<close>,
  which yields \<open>False\<close> at each \<open>return false\<close>, the last being the test
  \<open>is_JobStatus(JS_Terminated)\<close>), then the cleanup and the purge; before them the two
  job records and the bootstrap file, and first the checks. \<open>setJobStarted\<close>
  only starts the run time check and is left out. \<open>UpdateJobStartRecord\<close> succeeds
  when the job has a catalog row.
\<close>

text \<open>
  The end of \<open>DoNativeVbackup\<close>: remove the consolidated jobs from the catalog when the
  job is always-incremental with a retention.
\<close>

definition purge_consolidated :: "dird_env \<Rightarrow> world \<Rightarrow> string \<Rightarrow> world" where
  "purge_consolidated E w jobids =
     (if AlwaysIncremental (jcr w) \<and> AlwaysIncrementalJobRetention (jcr w) \<noteq> 0
      then emit (Jmsg M_INFO
                   (''purged JobIds '' @ jobids @ '' as they were consolidated into Job ''
                      @ decimal (jcr_JobId (jcr w)) @ NL))
             ((emit (PurgeJobsFromCatalog_call jobids) w)
                \<lparr>catalog := PurgeJobsFromCatalog E jobids (catalog w)\<rparr>)
      else w)"

definition storage_daemon_job :: "dird_env \<Rightarrow> world \<Rightarrow> bool \<times> world" where
  "storage_daemon_job E w =
     (let w1 = emit ConnectToStorageDaemon_call (set_status E JS_WaitSD w)
      in if \<not> ConnectToStorageDaemon E then (False, w1)
         else
           (let w2 = emit StartStorageDaemonJob_call w1
            in if \<not> StartStorageDaemonJob E then (False, w2)
               else
                 (let j3 = (jcr w2)\<lparr>start_time := time_now E\<rparr>;
                      j4 = j3\<lparr>jr := (jr j3)\<lparr>StartTime := start_time j3, JobTDate := start_time j3\<rparr>\<rparr>;
                      w4 = set_status E JS_Running (w2\<lparr>jcr := j4\<rparr>);
                      w5 = (emit (UpdateJobStartRecord_call (jr (jcr w4))) w4)
                             \<lparr>catalog := update_own_row (catalog w4) (JobId (jr (jcr w4)))
                                            (UpdateJobStartRecord_row E (jr (jcr w4)))\<rparr>
                  in if find (\<lambda>r. JobId r = JobId (jr (jcr w4))) (catalog w4) = None
                     then (False, emit (Jmsg M_FATAL (db_strerror E)) w5)
                     else
                       (let w6 = emit (fsend_call ''run'') w5
                        in if \<not> fsend_run E then (False, w6)
                           else
                             (let w7 = emit StartStorageDaemonMessageThread_call w6
                              in if \<not> StartStorageDaemonMessageThread E then (False, w7)
                                 else
                                   (let w8 = emit WaitForStorageDaemonTermination_call
                                               (set_status E JS_Running w7);
                                        sd = WaitForStorageDaemonTermination E;
                                        w9 = w8\<lparr>jcr := (jcr w8)
                                               \<lparr>SDJobStatus := sd_JobStatus sd, SDJobFiles := sd_JobFiles sd,
                                                SDJobBytes := sd_JobBytes sd, SDErrors := sd_Errors sd,
                                                JobErrors := sd_JobErrors sd\<rparr>\<rparr>;
                                        w10 = emit WriteBatchFileRecords_call
                                                (set_status E (SDJobStatus (jcr w9)) w9)
                                    in if JobStatus (jcr w10) \<noteq> JS_Terminated then (False, w10)
                                       else (True, w10)))))))"

definition DoNativeVbackup_storage :: "dird_env \<Rightarrow> world \<Rightarrow> string \<Rightarrow> int \<Rightarrow> bool \<times> world" where
  "DoNativeVbackup_storage E w jobids JobLevel_of_first_job =
     (case storage_daemon_job E w of
        (False, w') \<Rightarrow> (False, w')
      | (True, w10) \<Rightarrow>
          (True,
           purge_consolidated E
             (NativeVbackupCleanup E w10 (JobStatus (jcr w10)) JobLevel_of_first_job)
             jobids))"

definition DoNativeVbackup_records ::
  "dird_env \<Rightarrow> world \<Rightarrow> string \<Rightarrow> string list \<Rightarrow> bool \<times> world" where
  "DoNativeVbackup_records E w jobids jobid_list =
     (case GetJobRecord (catalog w)
             (empty_JobDbRecord\<lparr>JobId := to_JobId (str_to_int64 E (hd jobid_list))\<rparr>) of
        (False, tmp_jr) \<Rightarrow>
          (False, emit (Jmsg M_FATAL
                          (''Error getting Job record for first Job: ERR='' @ db_strerror E @ NL)) w)
      | (True, tmp_jr) \<Rightarrow>
          (let JobLevel_of_first_job = JobLevel tmp_jr;
               prev0 = empty_JobDbRecord\<lparr>JobId := to_JobId (str_to_int64 E (last jobid_list))\<rparr>
           in case GetJobRecord (catalog w) prev0 of
                (False, prev) \<Rightarrow>
                  (False, emit (Jmsg M_FATAL
                                  (''Error getting Job record for previous Job: ERR=''
                                     @ db_strerror E @ NL))
                            (w\<lparr>jcr := (jcr w)\<lparr>previous_jr := prev\<rparr>\<rparr>))
              | (True, prev) \<Rightarrow>
                  (case CreateBootstrapFile E (w\<lparr>jcr := (jcr w)\<lparr>previous_jr := prev\<rparr>\<rparr>) jobids of
                     (False, w1) \<Rightarrow>
                       (False, emit (Jmsg M_FATAL (''Could not create bootstrap file'' @ NL)) w1)
                   | (True, w1) \<Rightarrow>
                       DoNativeVbackup_storage E
                         (emit (Jmsg M_INFO
                                  (''Consolidating JobIds '' @ jobids @ '' containing ''
                                     @ format_d (ExpectedFiles (jcr w1)) @ '' files'' @ NL)) w1)
                         jobids JobLevel_of_first_job)))"

definition DoNativeVbackup :: "dird_env \<Rightarrow> world \<Rightarrow> bool \<times> world" where
  "DoNativeVbackup E w =
     (if read_storage_list (jcr w) = None
      then (False, emit (Jmsg M_FATAL (''No storage for reading given.'' @ NL)) w)
      else if write_storage_list (jcr w) = None
      then (False, emit (Jmsg M_FATAL (''No storage for writing given.'' @ NL)) w)
      else
        (let w1 = emit (Jmsg M_INFO
                     (''Start Virtual Backup JobId '' @ decimal (jcr_JobId (jcr w)) @ '', Job=''
                        @ Job (jcr w) @ NL)) w;
             w2 = (if \<not> accurate (jcr w1)
                   then emit (Jmsg M_WARNING
                          (''This Job is not an Accurate backup so is not equivalent to a Full ''
                             @ ''backup.'' @ NL)) w1
                   else w1);
             jobids = GetVfJobids E w2;
             jobid_list = split_string E jobids CHR '',''
         in if jobid_list = []
            then (False, emit (Jmsg M_FATAL (''No previous Jobs found.'' @ NL)) w2)
            else
              (let w3 = emit (SqlQuery
                          (''SELECT JobId, Type, ClientId, FilesetId, PurgedFiles ''
                             @ ''FROM Job WHERE JobId IN ('' @ jobids @ '')'')) w2;
                   cc = foldl cc_handler \<lparr>JobList = [], JobsWithPurgedFiles = []\<rparr>
                          (consistency_rows E (catalog w3) jobids)
               in if \<not> CheckNumJobs cc (length jobid_list)
                  then (False,
                        emit (Jmsg M_FATAL (''Jobs missing from catalog. Cannot continue.'' @ NL))
                          (foldl (\<lambda>w missing_job.
                                     emit (Jmsg M_ERROR
                                             (''JobId '' @ missing_job
                                                @ '' is not present in the catalog'' @ NL)) w)
                             w3 (JobListDiff cc jobid_list)))
                  else if \<not> CheckPurgedFiles cc
                  then (False,
                        emit (Jmsg M_FATAL
                                (''At least one job'' @ apostrophe
                                   @ ''s files were pruned from the catalog.'' @ NL))
                          (foldl (\<lambda>w purged_files_job.
                                     emit (Jmsg M_ERROR
                                             (''Files for JobId '' @ purged_files_job
                                                @ '' have been purged from the catalog'' @ NL)) w)
                             w3 (JobsWithPurgedFiles cc)))
                  else DoNativeVbackup_records E w3 jobids jobid_list)))"

section \<open>What a scattered block is, in the words of the specification\<close>

text \<open>
  Section 4.2, step 4: the records of a block lie one after the other from
  \<open>buf + sizeof(block_header)\<close> to \<open>buf + BlockSize\<close>; a record is its header followed by
  its payload, and the payload ends at \<open>min(payload_start + DataSize, buf + BlockSize)\<close>.
  \<open>records_stored L v data end pos rs\<close> says that the descriptors \<open>rs\<close> describe
  exactly the records of \<open>data\<close> between the offsets \<open>pos\<close> and \<open>end\<close>: each keeps the
  record's header, its size is the declared \<open>DataSize\<close> cut at the end of the block, and
  the volume \<open>v\<close> holds that many payload bytes at the descriptor's location.
  \<open>stored_payload\<close> is the content of the data segments at a descriptor's location.
  \<open>records_stored\<close> reads the volume only at the descriptors' locations; what is handed
  to \<open>append_data\<close>, and how much the data segments grow, is said by \<open>payloads_cut\<close>
  below.
\<close>

definition stored_payload :: "volume \<Rightarrow> record_header \<Rightarrow> byte list option" where
  "stored_payload v r =
     (if rec_file_index r < length (vol_data v)
         \<and> rec_start r + rec_size r \<le> length (vol_data v ! rec_file_index r)
      then Some (take (rec_size r) (drop (rec_start r) (vol_data v ! rec_file_index r)))
      else None)"

fun records_stored ::
  "wire_format \<Rightarrow> volume \<Rightarrow> byte list \<Rightarrow> nat \<Rightarrow> nat \<Rightarrow> record_header list \<Rightarrow> bool" where
  "records_stored L v data end' pos [] = (pos = end')"
| "records_stored L v data end' pos (r # rs) =
     (pos + recheader_size L \<le> end'
      \<and> rec_BareosHeader r = take (recheader_size L) (drop pos data)
      \<and> rec_size r = min (unat (DataSize L (rec_BareosHeader r))) (end' - (pos + recheader_size L))
      \<and> stored_payload v r = Some (take (rec_size r) (drop (pos + recheader_size L) data))
      \<and> records_stored L v data end' (pos + recheader_size L + rec_size r) rs)"

text \<open>
  \<open>payloads_cut L data end pos calls\<close> says that \<open>calls\<close>, a list of argument triples of
  \<open>append_data\<close>, is what walking the records of \<open>data\<close> from the offset \<open>pos\<close> gives:
  each call gets the block header, the record header at the current offset, and as
  payload exactly the \<open>min(DataSize, end - payload_start)\<close> bytes that follow the record
  header, no more; the next record starts where that payload ends. The walk may stop
  early (a failed call ends the loop). \<open>call_payload\<close> is the payload of a call,
  \<open>call_record\<close> its record header with the length of its payload, and
  \<open>descriptor_record\<close> the same two things as a record descriptor keeps them.
\<close>

fun payloads_cut ::
  "wire_format \<Rightarrow> byte list \<Rightarrow> nat \<Rightarrow> nat \<Rightarrow> (byte list \<times> byte list \<times> byte list) list
     \<Rightarrow> bool" where
  "payloads_cut L data end' pos [] = True"
| "payloads_cut L data end' pos (call # calls) =
     (let rec = take (recheader_size L) (drop pos data);
          payload_start = pos + recheader_size L;
          payload_size = min (unat (DataSize L rec)) (end' - payload_start)
      in payload_start \<le> end'
         \<and> call = (take (blockheader_size L) data, rec, take payload_size (drop payload_start data))
         \<and> length (take payload_size (drop payload_start data)) = payload_size
         \<and> payloads_cut L data end' (payload_start + payload_size) calls)"

definition call_payload :: "byte list \<times> byte list \<times> byte list \<Rightarrow> byte list" where
  "call_payload call = snd (snd call)"

definition call_record :: "byte list \<times> byte list \<times> byte list \<Rightarrow> byte list \<times> nat" where
  "call_record call = (fst (snd call), length (snd (snd call)))"

definition descriptor_record :: "record_header \<Rightarrow> byte list \<times> nat" where
  "descriptor_record r = (rec_BareosHeader r, rec_size r)"

text \<open>
  \<open>listed_jobs\<close> are the rows of the catalog whose \<open>JobId\<close> is in the consolidation list:
  the jobs that the query \<open>SELECT ... FROM Job WHERE JobId IN (jobids)\<close> of the run phase
  returns (\<open>consistency_rows\<close> is their text).
\<close>

definition listed_jobs :: "dird_env \<Rightarrow> world \<Rightarrow> JobDbRecord list" where
  "listed_jobs E w =
     filter (\<lambda>r. JobId r \<in> set (map (\<lambda>s. to_JobId (str_to_int64 E s))
                                      (split_string E (GetVfJobids E w) CHR '','')))
       (catalog w)"


section \<open>Example inputs\<close>

text \<open>
  A wire format for the examples: a 24 byte block header with \<open>BlockSize\<close> in bytes 4
  to 7, a 12 byte record header with \<open>DataSize\<close> in bytes 8 to 11, both big-endian.
\<close>

definition be32 :: "byte list \<Rightarrow> 32 word" where
  "be32 bs = foldl (\<lambda>acc b. push_bit 8 acc OR ucast b) 0 bs"

definition example_format :: wire_format where
  "example_format =
     \<lparr>block_layout = \<lparr>field_offset = 4, field_tail = 16\<rparr>,
      record_layout = \<lparr>field_offset = 8, field_tail = 0\<rparr>,
      decode_u32 = be32\<rparr>"

definition example_volume :: volume where
  "example_volume =
     \<lparr>vol_name = ''/dedup/Full-0001'', vol_permissions = 416, vol_blocksize = 8192,
      segment_limit = 1000, vol_blocks = [], vol_records = [], vol_data = [], vol_ok = True,
      vol_io = [], vol_appends = []\<rparr>"

definition example_device :: dedup_file_device where
  "example_device =
     \<lparr>mounted = True, open_volume = None, open_mode = CREATE_READ_WRITE, dev_file = 0,
      block_num = 0, file_addr = 0, fd_ctr = 3, fd = 3, eot = False,
      dev_options = Some ''blocksize=8192'', dedup_block_size = 4096\<rparr>"

text \<open>
  Scenario 2 of the specification: a block with \<open>BlockSize = 64\<close> whose only record
  declares \<open>DataSize = 1000000\<close>; 28 bytes follow the two headers.
\<close>

definition block64 :: "byte list" where
  "block64 = [0,0,0,0, 0,0,0,64, 0,0,0,1, 66,66,48,50, 0,0,0,1, 0,0,0,2]
           @ [0,0,0,1, 0,0,0,2, 0,15,66,64]
           @ [1,2,3,4,5,6,7,8,9,10,11,12,13,14,15,16,17,18,19,20,21,22,23,24,25,26,27,28]"

definition example_volume_written :: volume where
  "example_volume_written = example_volume
     \<lparr>vol_blocks := [\<lparr>blk_BareosHeader = take 24 block64, blk_start = 0, blk_count = 1\<rparr>],
      vol_records := [\<lparr>rec_BareosHeader = take 12 (drop 24 block64), rec_start = 0, rec_size = 28,
                       rec_file_index = 0\<rparr>],
      vol_data := [drop 36 block64],
      vol_appends := [(take 24 block64, take 12 (drop 24 block64), drop 36 block64)]\<rparr>"

text \<open>
  Scenario 4: the volume holds the one block above, the cursor is at (0,0), and a new
  block of 48 bytes (one record of 12 bytes) is written.
\<close>

definition block48 :: "byte list" where
  "block48 = [0,0,0,0, 0,0,0,48, 0,0,0,1, 66,66,48,50, 0,0,0,1, 0,0,0,2]
           @ [0,0,0,1, 0,0,0,2, 0,0,0,12]
           @ [101,102,103,104,105,106,107,108,109,110,111,112]"

definition relabel_device :: dedup_file_device where
  "relabel_device = example_device\<lparr>open_volume := Some example_volume_written\<rparr>"

definition relabelled_volume :: volume where
  "relabelled_volume = example_volume
     \<lparr>vol_blocks := [\<lparr>blk_BareosHeader = take 24 block48, blk_start = 0, blk_count = 1\<rparr>],
      vol_records := [\<lparr>rec_BareosHeader = take 12 (drop 24 block48), rec_start = 0, rec_size = 12,
                       rec_file_index = 0\<rparr>],
      vol_data := [drop 36 block48],
      vol_appends := [(take 24 block64, take 12 (drop 24 block64), drop 36 block64),
                      (take 24 block48, take 12 (drop 24 block48), drop 36 block48)]\<rparr>"

text \<open>
  A volume on which the second I/O operation fails, option helpers that know three
  option strings, and a host with a secure-erase command whose file system holds four
  files in the volume directory.
\<close>

definition faulty_volume :: volume where
  "faulty_volume = example_volume_written\<lparr>vol_io := [True, False]\<rparr>"

text \<open>
  The written volume after a failed I/O operation (it is no longer \<open>is_ok\<close>), and after
  a successful \<open>reset\<close>.
\<close>

definition broken_volume :: volume where
  "broken_volume = example_volume_written\<lparr>vol_io := [], vol_ok := False\<rparr>"

definition emptied_volume :: volume where
  "emptied_volume = example_volume_written\<lparr>vol_blocks := [], vol_records := [], vol_data := []\<rparr>"

definition example_util :: option_util where
  "example_util =
     \<lparr>parse_options = (\<lambda>v. if v = ''blocksize=8192'' then Inr [(''blocksize'', ''8192'')]
                            else if v = ''blocksize=abc,foo=1''
                            then Inr [(''blocksize'', ''abc''), (''foo'', ''1'')]
                            else if v = ''foo=1,bar=2'' then Inr [(''bar'', ''2''), (''foo'', ''1'')]
                            else Inl ''unsupported''),
      key_matches = (\<lambda>a b. a = b),
      size_to_uint64 = (\<lambda>s. if s = ''8192'' then Some 8192 else None)\<rparr>"

definition example_host :: host where
  "example_host =
     \<lparr>secure_erase_cmdline = Some ''/usr/bin/shred'',
      util = example_util,
      stored = (\<lambda>p. None),
      fresh_io = [],
      new_segment_limit = 1000,
      directory = (\<lambda>p. Some [(p @ ''/config'', False), (p @ ''/blocks'', False),
                               (p @ ''/records'', False), (p @ ''/data-0'', False)]),
      SecureErase = (\<lambda>f. 0),
      fs_remove = (\<lambda>p. Some True)\<rparr>"

definition fresh_volume :: "nat \<Rightarrow> volume" where
  "fresh_volume bs = example_volume\<lparr>vol_blocksize := bs\<rparr>"

subsection \<open>A consolidation of three jobs\<close>

text \<open>
  Scenario 1 of the specification: the new job 200 consolidates the jobs 100 (a full
  backup, level \<open>F\<close> = 70), 101 and 102 (incrementals, level \<open>I\<close> = 73). The catalog
  functions answer as a catalog would: \<open>UpdateJobEnd\<close> writes the status and the level of
  the job record into the job's row.
\<close>

definition example_env :: dird_env where
  "example_env =
     \<lparr>split_string = (\<lambda>s c. if s = ''100,101,102'' then [''100'', ''101'', ''102'']
                            else if s = ''100,101'' then [''100'', ''101''] else []),
      str_to_int64 = (\<lambda>s. if s = ''100'' then 100 else if s = ''101'' then 101
                           else if s = ''102'' then 102 else 0),
      edit_uint64 = decimal,
      job_level_to_str = (\<lambda>l. if l = 70 then ''Full'' else if l = 73 then ''Incremental''
                               else ''Unknown''),
      status_char = (\<lambda>st. CHR ''?''),
      setJobStatus = (\<lambda>old new. new),
      time_now = 1700000000,
      db_strerror = ''catalog error'',
      AccurateGetJobids = (\<lambda>cat rec. []),
      UpdateJobStartRecord_row = (\<lambda>rec row. row\<lparr>StartTime := StartTime rec, JobTDate := JobTDate rec\<rparr>),
      UpdateJobEnd_jcr = (\<lambda>rec old TermCode. (TermCode, rec\<lparr>jr_JobStatus := TermCode\<rparr>)),
      UpdateJobEnd_row = (\<lambda>rec row. row\<lparr>jr_JobStatus := jr_JobStatus rec, JobLevel := JobLevel rec\<rparr>),
      FillQuery_recent_version = (\<lambda>ids. ''SELECT ...''),
      PurgeJobsFromCatalog = (\<lambda>ids cat. cat),
      OpenBatchConnection = True,
      GetFileList = (\<lambda>ids. (True, [\<lparr>fr_Path = ''/a/'', fr_Filename = ''b'', fr_FileIndex = ''7'',
                                       fr_JobId = ''102'', fr_LStat = ''''\<rparr>])),
      WriteBsrFile = length,
      ConnectToStorageDaemon = True,
      StartStorageDaemonJob = True,
      fsend_run = True,
      StartStorageDaemonMessageThread = True,
      WaitForStorageDaemonTermination =
        \<lparr>sd_JobStatus = JS_Terminated, sd_JobFiles = 1, sd_JobBytes = 4096, sd_Errors = 0,
         sd_JobErrors = 0\<rparr>,
      replicate_deleted_files = True,
      GetClientRecord = True\<rparr>"

definition example_job :: "nat \<Rightarrow> int \<Rightarrow> int \<Rightarrow> string \<Rightarrow> string \<Rightarrow> nat \<Rightarrow> JobDbRecord" where
  "example_job jid lvl purged st et td =
     \<lparr>JobId = jid, JobLevel = lvl, jr_JobStatus = JS_Terminated, jr_Type = ''B'', ClientId = 1,
      FileSetId = 1, PoolId = 1, PurgedFiles = purged, StartTime = td, cStartTime = st,
      cEndTime = et, JobTDate = td\<rparr>"

definition example_jcr :: JobControlRecord where
  "example_jcr =
     \<lparr>jcr_JobId = 200, Job = ''consolidate'', JobStatus = JS_Running, accurate = True,
      JobFiles = 0, JobBytes = 0, JobErrors = 0, start_time = 0,
      read_storage_list = Some [''File1''], write_storage_list = Some [''File2''],
      vf_jobids = Some ''100,101,102'',
      jr = example_job 200 86 0 [] [] 0, previous_jr = empty_JobDbRecord, ExpectedFiles = 0,
      SDJobStatus = JS_Running, SDJobFiles = 0, SDJobBytes = 0, SDErrors = 0,
      SD_msg_chan_started = False, store_bsock = True, AlwaysIncremental = False,
      AlwaysIncrementalJobRetention = 0, client_name = ''client-fd''\<rparr>"


text \<open>Scenario 5: job 101 has its files purged.\<close>

definition purged_catalog :: "JobDbRecord list" where
  "purged_catalog =
     [example_job 100 70 0 ''2024-01-01 01:00:00'' ''2024-01-01 01:30:00'' 1704070800,
      example_job 101 73 1 ''2024-01-02 01:00:00'' ''2024-01-02 01:10:00'' 1704157200,
      example_job 102 73 0 ''2024-01-03 01:00:00'' ''2024-01-03 01:05:00'' 1704243600,
      example_job 200 86 0 [] [] 0]"

text \<open>Job 101 has its files purged and job 100 has no row.\<close>

definition purged_missing_catalog :: "JobDbRecord list" where
  "purged_missing_catalog =
     [example_job 101 73 1 ''2024-01-02 01:00:00'' ''2024-01-02 01:10:00'' 1704157200,
      example_job 200 86 0 [] [] 0]"

definition purged_world :: world where
  "purged_world = \<lparr>jcr = example_jcr, catalog = purged_catalog, trace = []\<rparr>"

definition purged_missing_world :: world where
  "purged_missing_world =
     \<lparr>jcr = example_jcr\<lparr>vf_jobids := Some ''100,101''\<rparr>, catalog = purged_missing_catalog,
      trace = []\<rparr>"





section \<open>Properties of the device facade\<close>

subsection \<open>Descriptor and open-volume checks\<close>

text \<open>
  C10. \<open>d_write\<close> and \<open>d_read\<close> return -1 and leave the device, and with it the volume
  and the caller's buffer, as they were whenever the descriptor differs from
  \<open>fd_ctr\<close> or no volume is open.
\<close>

theorem d_write_d_read_reject_descriptor:
  assumes "fd' \<noteq> fd_ctr dev \<or> open_volume dev = None"
  shows "d_write L dev fd' data = Some (- 1, dev) \<and> d_read L dev fd' buf = Some (- 1, buf, dev)"
  using assms by (auto simp: d_write_def d_read_def)

theorem d_write_d_read_reject_descriptor_witness:
  "d_write example_format (example_device\<lparr>open_volume := Some example_volume\<rparr>) 2 [1, 2, 3]
     = Some (- 1, example_device\<lparr>open_volume := Some example_volume\<rparr>)
   \<and> d_read example_format (example_device\<lparr>open_volume := Some example_volume\<rparr>) 2 [0, 0]
     = Some (- 1, [0, 0], example_device\<lparr>open_volume := Some example_volume\<rparr>)"
  using d_write_d_read_reject_descriptor
          [of 2 "example_device\<lparr>open_volume := Some example_volume\<rparr>" example_format
              "[1, 2, 3]" "[0, 0]"]
  by (simp add: example_device_def)

subsection \<open>Writes are append-only\<close>

text \<open>
  C4. In a device with an open volume, if the cursor \<open>block_number(file, block_num)\<close>
  differs from \<open>vol.size()\<close> and the relabel exception does not apply, \<open>d_write\<close> with
  the current descriptor returns -1 when the volume is in order; only the end-of-tape
  flag of the device changes, the volume is the one it was. When the volume is not in
  order, \<open>d_write\<close> stops at its \<open>ASSERT(vol.is_ok())\<close>, which comes before the test of the
  cursor: it returns nothing, and the device and the volume are not touched.
\<close>

theorem d_write_rejects_non_append:
  assumes "open_volume dev = Some vol"
    and "block_number (dev_file dev) (block_num dev) \<noteq> vol_size vol"
    and "\<not> (block_number (dev_file dev) (block_num dev) = 0 \<and> vol_size vol = 1)"
  shows "d_write L dev (fd_ctr dev) data = (if is_ok vol then Some (- 1, SetEot dev) else None)
         \<and> open_volume (SetEot dev) = Some vol"
  using assms by (auto simp: d_write_def SetEot_def Let_def)

theorem d_write_rejects_non_append_witness:
  "d_write example_format
     (example_device\<lparr>open_volume := Some example_volume, block_num := 1\<rparr>) 3 [1, 2, 3]
     = Some (- 1, SetEot (example_device\<lparr>open_volume := Some example_volume, block_num := 1\<rparr>))
   \<and> open_volume (SetEot (example_device\<lparr>open_volume := Some example_volume, block_num := 1\<rparr>))
     = Some example_volume"
  using d_write_rejects_non_append
          [of "example_device\<lparr>open_volume := Some example_volume, block_num := 1\<rparr>"
              example_volume example_format "[1, 2, 3]"]
  by (simp add: example_device_def example_volume_def is_ok_def vol_size_def block_number_def)

text \<open>
  A read whose I/O fails leaves the open volume not in order (\<open>broken_volume\<close>). With
  that volume open, one block in it and the cursor at block 2, \<open>d_write\<close> does not
  return -1: it does not return.
\<close>

theorem d_write_not_ok_counterexample:
  "d_read example_format
     (example_device\<lparr>open_volume := Some (example_volume_written\<lparr>vol_io := [False]\<rparr>)\<rparr>) 3
     (replicate 64 0)
     = Some (- 1, replicate 64 0, SetEot (example_device\<lparr>open_volume := Some broken_volume\<rparr>))
   \<and> block_number 0 2 \<noteq> vol_size broken_volume
   \<and> \<not> (block_number 0 2 = 0 \<and> vol_size broken_volume = 1)
   \<and> d_write example_format
        (example_device\<lparr>open_volume := Some broken_volume, dev_file := 0, block_num := 2\<rparr>) 3 block64
      = None"
  by (simp add: d_read_def d_write_def example_device_def broken_volume_def
        example_volume_written_def example_volume_def is_ok_def vol_size_def block_number_def
        gather_def read_block_def next_io_def SetEot_def ClearEot_def Let_def)

subsection \<open>The volume operations that scatter uses\<close>

lemma next_io_keeps:
  "next_io v = (b, v') \<Longrightarrow>
     vol_blocks v' = vol_blocks v \<and> vol_records v' = vol_records v \<and> vol_data v' = vol_data v
     \<and> segment_limit v' = segment_limit v"
  by (auto simp: next_io_def split: list.splits)

lemma append_data_keeps:
  "append_data v block rec payload = (res, v') \<Longrightarrow>
     vol_blocks v' = vol_blocks v \<and> vol_records v' = vol_records v"
  by (auto simp: append_data_def Let_def split: if_splits prod.splits bool.splits dest: next_io_keeps)

lemma grow_last_nth:
  assumes "segs \<noteq> []" and "fi < length segs" and "st + sz \<le> length (segs ! fi)"
  shows "take sz (drop st ((butlast segs @ [last segs @ p]) ! fi)) = take sz (drop st (segs ! fi))
         \<and> st + sz \<le> length ((butlast segs @ [last segs @ p]) ! fi)"
proof (cases "fi < length segs - 1")
  case True
  then have "(butlast segs @ [last segs @ p]) ! fi = segs ! fi"
    by (simp add: nth_append nth_butlast)
  with assms show ?thesis by simp
next
  case False
  with assms have fi: "fi = length segs - 1" by simp
  with assms have "segs ! fi = last segs" by (simp add: last_conv_nth)
  moreover from fi have "(butlast segs @ [last segs @ p]) ! fi = last segs @ p"
    by (simp add: nth_append)
  ultimately show ?thesis using assms by simp
qed

lemma append_data_data:
  assumes "append_data v block rec payload = (Some loc, v')"
  shows "(vol_data v' = vol_data v @ [payload] \<and> loc_file_index loc = length (vol_data v)
            \<and> loc_begin loc = 0)
         \<or> (vol_data v \<noteq> []
            \<and> vol_data v' = butlast (vol_data v) @ [last (vol_data v) @ payload]
            \<and> loc_file_index loc = length (vol_data v) - 1
            \<and> loc_begin loc = length (last (vol_data v)))"
  using assms
  by (auto simp: append_data_def Let_def split: if_splits prod.splits bool.splits
           dest!: next_io_keeps)

lemma append_data_fail:
  assumes "append_data v block rec payload = (None, v')"
  shows "vol_data v' = vol_data v"
  using assms
  by (auto simp: append_data_def Let_def split: if_splits prod.splits bool.splits
           dest!: next_io_keeps)

lemma append_data_stable:
  assumes "append_data v block rec payload = (res, v')"
    and "stored_payload v r = Some x"
  shows "stored_payload v' r = Some x"
proof (cases res)
  case None
  with assms(1) have "vol_data v' = vol_data v" by (simp add: append_data_fail)
  with assms(2) show ?thesis by (simp add: stored_payload_def split: if_splits)
next
  case (Some loc)
  from assms(2) have fi: "rec_file_index r < length (vol_data v)"
    and fit: "rec_start r + rec_size r \<le> length (vol_data v ! rec_file_index r)"
    and x: "x = take (rec_size r) (drop (rec_start r) (vol_data v ! rec_file_index r))"
    by (auto simp: stored_payload_def split: if_splits)
  from assms(1) Some consider
      (fresh) "vol_data v' = vol_data v @ [payload]"
    | (grown) "vol_data v \<noteq> []" "vol_data v' = butlast (vol_data v) @ [last (vol_data v) @ payload]"
    using append_data_data by blast
  then show ?thesis
  proof cases
    case fresh
    with fi fit x show ?thesis by (simp add: stored_payload_def nth_append)
  next
    case grown
    from grow_last_nth [OF grown(1) fi fit, of payload] grown(2) fi x
    show ?thesis by (simp add: stored_payload_def)
  qed
qed

lemma append_data_stored:
  assumes "append_data v block rec payload = (Some loc, v')"
  shows "stored_payload v' \<lparr>rec_BareosHeader = h, rec_start = loc_begin loc,
            rec_size = length payload, rec_file_index = loc_file_index loc\<rparr> = Some payload"
  using append_data_data [OF assms]
  by (auto simp: stored_payload_def nth_append)


lemma records_stored_stable:
  assumes "\<And>r x. stored_payload v r = Some x \<Longrightarrow> stored_payload v' r = Some x"
  shows "records_stored L v data e p rs \<Longrightarrow> records_stored L v' data e p rs"
  using assms by (induction rs arbitrary: p) auto

lemma records_stored_data:
  "vol_data v' = vol_data v \<Longrightarrow> records_stored L v' data e p rs = records_stored L v data e p rs"
  by (induction rs arbitrary: p) (auto simp: stored_payload_def)

lemma scatter_loop_inv:
  assumes "scatter_loop L vol block data e c recs = (res, vol')" and "e \<le> length data"
  shows "vol_blocks vol' = vol_blocks vol \<and> vol_records vol' = vol_records vol
         \<and> (\<forall>r x. stored_payload vol r = Some x \<longrightarrow> stored_payload vol' r = Some x)
         \<and> (\<forall>c' recs'. res = Some (c', recs') \<longrightarrow>
               c' = e \<and> (\<exists>new. recs' = recs @ new \<and> records_stored L vol' data e c new))"
  using assms
proof (induction L vol block data e c recs arbitrary: res vol' rule: scatter_loop.induct)
  case (1 L vol block data e c recs)
  show ?case
  proof (cases "c = e")
    case True
    with "1.prems" have "res = Some (c, recs)" "vol' = vol" by simp_all
    with True show ?thesis by simp
  next
    case ne: False
    show ?thesis
    proof (cases "e < c + recheader_size L")
      case True
      with ne "1.prems" have "res = None" "vol' = vol" by simp_all
      then show ?thesis by simp
    next
      case fits: False
      let ?rec = "take (recheader_size L) (drop c data)"
      let ?ps = "c + recheader_size L"
      let ?pe = "if e < ?ps + unat (DataSize L ?rec) then e else ?ps + unat (DataSize L ?rec)"
      let ?psz = "?pe - ?ps"
      let ?payload = "take ?psz (drop ?ps data)"
      define rec where "rec = ?rec"
      define ps where "ps = ?ps"
      define pe where "pe = ?pe"
      define psz where "psz = ?psz"
      define payload where "payload = ?payload"
      obtain r1 vol1 where ad0: "append_data vol block ?rec ?payload = (r1, vol1)"
        by (cases "append_data vol block ?rec ?payload")
      have unfold0: "scatter_loop L vol block data e c recs =
          (case r1 of None \<Rightarrow> (None, vol1)
           | Some written \<Rightarrow> scatter_loop L vol1 block data e ?pe
               (recs @ [\<lparr>rec_BareosHeader = ?rec, rec_start = loc_begin written,
                         rec_size = ?psz, rec_file_index = loc_file_index written\<rparr>]))"
        using ne fits ad0
        by (subst scatter_loop.simps) (simp add: Let_def split del: if_split)
      have ad: "append_data vol block rec payload = (r1, vol1)"
        using ad0 by (simp only: rec_def payload_def)
      have unfold: "scatter_loop L vol block data e c recs =
          (case r1 of None \<Rightarrow> (None, vol1)
           | Some written \<Rightarrow> scatter_loop L vol1 block data e pe
               (recs @ [\<lparr>rec_BareosHeader = rec, rec_start = loc_begin written,
                         rec_size = psz, rec_file_index = loc_file_index written\<rparr>]))"
        using unfold0 by (simp only: rec_def pe_def psz_def)
      have pe_eq: "pe = (if e < ps + unat (DataSize L rec) then e else ps + unat (DataSize L rec))"
        by (simp only: pe_def ps_def rec_def)
      have psz_eq: "psz = pe - ps" by (simp only: psz_def pe_def ps_def)
      have payload_eq: "payload = take psz (drop ps data)"
        by (simp only: payload_def psz_def ps_def)
      have keep1: "vol_blocks vol1 = vol_blocks vol \<and> vol_records vol1 = vol_records vol"
        using append_data_keeps [OF ad] .
      have stable1: "\<And>r x. stored_payload vol r = Some x \<Longrightarrow> stored_payload vol1 r = Some x"
        using append_data_stable [OF ad] .
      show ?thesis
      proof (cases r1)
        case None
        with unfold "1.prems" have "res = None" "vol' = vol1" by simp_all
        with keep1 stable1 show ?thesis by simp
      next
        case (Some written)
        define r0 where "r0 = \<lparr>rec_BareosHeader = rec, rec_start = loc_begin written,
                         rec_size = psz, rec_file_index = loc_file_index written\<rparr>"
        from Some unfold "1.prems"(1)
        have rec_call: "scatter_loop L vol1 block data e pe (recs @ [r0]) = (res, vol')"
          by (simp add: r0_def)
        have IH: "vol_blocks vol' = vol_blocks vol1 \<and> vol_records vol' = vol_records vol1
           \<and> (\<forall>r x. stored_payload vol1 r = Some x \<longrightarrow> stored_payload vol' r = Some x)
           \<and> (\<forall>c' recs'. res = Some (c', recs') \<longrightarrow>
                 c' = e \<and> (\<exists>new. recs' = (recs @ [r0]) @ new \<and> records_stored L vol' data e pe new))"
          using "1.IH" [OF ne fits rec_def ps_def pe_eq psz_eq
                          ad [symmetric, unfolded payload_eq] Some
                          rec_call [unfolded r0_def] "1.prems"(2)]
          unfolding r0_def .
        have ps_le: "ps \<le> e" using fits by (simp add: ps_def)
        have pe_le: "pe \<le> e" "ps \<le> pe" using ps_le by (auto simp: pe_eq)
        have len: "length payload = psz"
          using pe_le "1.prems"(2) by (simp add: payload_eq psz_eq)
        have psz_min: "psz = min (unat (DataSize L rec)) (e - ps)"
          using ps_le by (auto simp: psz_eq pe_eq)
        have "stored_payload vol1 r0 = Some payload"
          using append_data_stored [OF ad [unfolded Some], of rec] by (simp add: r0_def len)
        with IH have st0: "stored_payload vol' r0 = Some payload" by blast
        have pe_sum: "c + recheader_size L + psz = pe"
          using pe_le by (simp add: psz_eq ps_def)
        have step: "records_stored L vol' data e c (r0 # new)"
          if "records_stored L vol' data e pe new" for new
        proof -
          have "c + recheader_size L \<le> e" using fits by simp
          moreover have "rec_BareosHeader r0 = take (recheader_size L) (drop c data)"
            by (simp add: r0_def rec_def)
          moreover have "rec_size r0 = min (unat (DataSize L (rec_BareosHeader r0)))
                                          (e - (c + recheader_size L))"
            using psz_min by (simp add: r0_def ps_def)
          moreover have "stored_payload vol' r0
                           = Some (take (rec_size r0) (drop (c + recheader_size L) data))"
            using st0 by (simp add: r0_def payload_eq ps_def)
          moreover have "records_stored L vol' data e (c + recheader_size L + rec_size r0) new"
            using that pe_sum by (simp add: r0_def)
          ultimately show ?thesis by simp
        qed
        have A: "vol_blocks vol' = vol_blocks vol \<and> vol_records vol' = vol_records vol"
          using IH keep1 by simp
        have C: "\<forall>r x. stored_payload vol r = Some x \<longrightarrow> stored_payload vol' r = Some x"
          using IH stable1 by blast
        have D: "\<forall>c' recs'. res = Some (c', recs') \<longrightarrow>
               c' = e \<and> (\<exists>new. recs' = recs @ new \<and> records_stored L vol' data e c new)"
        proof (intro allI impI)
          fix c' recs'
          assume "res = Some (c', recs')"
          with IH obtain new where new: "c' = e" "recs' = (recs @ [r0]) @ new"
              "records_stored L vol' data e pe new"
            by blast
          from new(2) have "recs' = recs @ (r0 # new)" by simp
          moreover from new(3) have "records_stored L vol' data e c (r0 # new)" by (rule step)
          ultimately show "c' = e \<and> (\<exists>new. recs' = recs @ new \<and> records_stored L vol' data e c new)"
            using new(1) by blast
        qed
        from A C D show ?thesis by blast
      qed
    qed
  qed
qed


lemma append_records_Some:
  assumes "append_records v rs = (Some start, v')"
  shows "start = length (vol_records v) \<and> vol_records v' = vol_records v @ rs
         \<and> vol_blocks v' = vol_blocks v \<and> vol_data v' = vol_data v"
  using assms
  by (auto simp: append_records_def split: if_splits prod.splits bool.splits dest!: next_io_keeps)

lemma append_block_True:
  assumes "append_block v b = (True, v')"
  shows "vol_blocks v' = vol_blocks v @ [b] \<and> vol_records v' = vol_records v
         \<and> vol_data v' = vol_data v"
  using assms
  by (auto simp: append_block_def split: if_splits prod.splits bool.splits dest!: next_io_keeps)

lemma scatter_success:
  assumes "scatter L vol data = (n, vol')" and "0 \<le> n"
  shows "n = int (unat (BlockSize L (take (blockheader_size L) data)))
         \<and> blockheader_size L \<le> length data
         \<and> unat (BlockSize L (take (blockheader_size L) data)) \<le> length data
         \<and> (\<exists>recs. vol_blocks vol' = vol_blocks vol
                        @ [\<lparr>blk_BareosHeader = take (blockheader_size L) data,
                            blk_start = length (vol_records vol), blk_count = length recs\<rparr>]
                   \<and> vol_records vol' = vol_records vol @ recs
                   \<and> records_stored L vol' data (unat (BlockSize L (take (blockheader_size L) data)))
                        (blockheader_size L) recs)
         \<and> (\<forall>r x. stored_payload vol r = Some x \<longrightarrow> stored_payload vol' r = Some x)"
proof -
  let ?block = "take (blockheader_size L) data"
  let ?bsize = "unat (BlockSize L ?block)"
  from assms have sz: "blockheader_size L \<le> length data" "?bsize \<le> length data"
    by (auto simp: scatter_def Let_def split: if_splits)
  obtain r1 vol1 where loop: "scatter_loop L vol ?block data ?bsize (blockheader_size L) [] = (r1, vol1)"
    by (cases "scatter_loop L vol ?block data ?bsize (blockheader_size L) []")
  from assms loop sz obtain current recs where r1: "r1 = Some (current, recs)"
    by (cases r1) (auto simp: scatter_def Let_def split: if_splits)
  obtain r2 vol2 where ar: "append_records vol1 recs = (r2, vol2)"
    by (cases "append_records vol1 recs")
  from assms loop sz r1 ar obtain start where r2: "r2 = Some start"
    by (cases r2) (auto simp: scatter_def Let_def split: if_splits)
  let ?b = "\<lparr>blk_BareosHeader = ?block, blk_start = start, blk_count = length recs\<rparr>"
  obtain r3 vol3 where ab: "append_block vol2 ?b = (r3, vol3)"
    by (cases "append_block vol2 ?b")
  from assms loop sz r1 ar r2 ab have r3: "r3" and n: "n = int current" and v: "vol' = vol3"
    by (cases r3; auto simp: scatter_def Let_def split: if_splits)+
  from scatter_loop_inv [OF loop sz(2)] r1
  have inv: "vol_blocks vol1 = vol_blocks vol" "vol_records vol1 = vol_records vol"
      "\<And>r x. stored_payload vol r = Some x \<Longrightarrow> stored_payload vol1 r = Some x"
      "current = ?bsize" "records_stored L vol1 data ?bsize (blockheader_size L) recs"
    by auto
  from append_records_Some [OF ar [unfolded r2]]
  have v2: "start = length (vol_records vol1)" "vol_records vol2 = vol_records vol1 @ recs"
      "vol_blocks vol2 = vol_blocks vol1" "vol_data vol2 = vol_data vol1"
    by auto
  from r3 ab have "append_block vol2 ?b = (True, vol3)" by simp
  from append_block_True [OF this]
  have v3: "vol_blocks vol3 = vol_blocks vol2 @ [?b]" "vol_records vol3 = vol_records vol2"
      "vol_data vol3 = vol_data vol2"
    by auto
  have data: "vol_data vol' = vol_data vol1" using v v2 v3 by simp
  have st: "stored_payload vol' r = stored_payload vol1 r" for r
    using data by (simp add: stored_payload_def)
  have "records_stored L vol' data ?bsize (blockheader_size L) recs"
    using inv(5) records_stored_data [OF data] by simp
  with inv v2 v3 v n sz st show ?thesis by auto
qed

lemmas example_defs =
  example_format_def example_volume_def blockheader_size_def recheader_size_def header_size_def
  BlockSize_def DataSize_def size_field_def be32_def

lemma example_scatter:
  "scatter example_format example_volume block64 = (64, example_volume_written)"
  by (simp add: scatter_def block64_def example_volume_written_def example_defs Let_def
        append_data_def next_io_def append_records_def append_block_def)

subsection \<open>A successful scatter appends one block\<close>

text \<open>
  C7. Every successful \<open>scatter\<close> (one that does not return -1) appends exactly one
  block descriptor: the block list of the volume grows by one element at its end, and
  \<open>size()\<close> is one more than before.
\<close>

theorem scatter_appends_one_block:
  assumes "scatter L vol data = (n, vol')" and "0 \<le> n"
  shows "(\<exists>b. vol_blocks vol' = vol_blocks vol @ [b]) \<and> vol_size vol' = vol_size vol + 1"
  using scatter_success [OF assms] by (auto simp: vol_size_def)

theorem scatter_appends_one_block_witness:
  "scatter example_format example_volume block64 = (64, example_volume_written)
   \<and> vol_size example_volume = 0 \<and> vol_size example_volume_written = 1"
  using scatter_appends_one_block [OF example_scatter]
  by (simp add: example_scatter) (simp add: vol_size_def example_volume_def)

subsection \<open>What scatter hands to the volume\<close>

text \<open>
  Every \<open>append_data\<close> call adds its arguments to the history of the volume, and nothing
  else does. The calls of the loop of \<open>scatter\<close> are the walk \<open>payloads_cut\<close>; the data
  segments grow by the payloads of the calls that succeeded, which are all of them or
  all but the last.
\<close>

lemma next_io_appends: "next_io v = (b, v') \<Longrightarrow> vol_appends v' = vol_appends v"
  by (auto simp: next_io_def split: list.splits)

lemma append_data_appends:
  "append_data v block rec payload = (res, v') \<Longrightarrow>
     vol_appends v' = vol_appends v @ [(block, rec, payload)]"
  by (auto simp: append_data_def Let_def split: if_splits prod.splits bool.splits
           dest!: next_io_appends)

lemma append_data_concat:
  assumes "append_data v block rec payload = (Some loc, v')"
  shows "concat (vol_data v') = concat (vol_data v) @ payload"
proof -
  from append_data_data [OF assms]
  consider "vol_data v' = vol_data v @ [payload]"
    | "vol_data v \<noteq> []" "vol_data v' = butlast (vol_data v) @ [last (vol_data v) @ payload]"
    by auto
  then show ?thesis
  proof cases
    case 1 then show ?thesis by simp
  next
    case 2
    from 2(1) have "concat (vol_data v) = concat (butlast (vol_data v)) @ last (vol_data v)"
      by (metis append_butlast_last_id concat.simps(1) concat.simps(2) concat_append append_Nil2)
    with 2(2) show ?thesis by simp
  qed
qed

lemma append_records_any:
  "append_records v rs = (res, v') \<Longrightarrow>
     vol_appends v' = vol_appends v \<and> vol_data v' = vol_data v"
  by (auto simp: append_records_def split: if_splits prod.splits bool.splits
           dest: next_io_appends next_io_keeps)

lemma append_block_any:
  "append_block v b = (res, v') \<Longrightarrow>
     vol_appends v' = vol_appends v \<and> vol_data v' = vol_data v"
  by (auto simp: append_block_def split: if_splits prod.splits bool.splits
           dest: next_io_appends next_io_keeps)

lemma scatter_loop_calls:
  assumes "scatter_loop L vol block data e c recs = (res, vol')"
    and "e \<le> length data" and "block = take (blockheader_size L) data"
  shows "\<exists>calls stored.
           vol_appends vol' = vol_appends vol @ calls
         \<and> payloads_cut L data e c calls
         \<and> (stored = calls \<or> stored = butlast calls)
         \<and> concat (vol_data vol') = concat (vol_data vol) @ concat (map call_payload stored)
         \<and> (\<forall>c' recs'. res = Some (c', recs') \<longrightarrow>
               stored = calls
               \<and> (\<exists>new. recs' = recs @ new \<and> map descriptor_record new = map call_record calls))"
  using assms
proof (induction L vol block data e c recs arbitrary: res vol' rule: scatter_loop.induct)
  case (1 L vol block data e c recs)
  show ?case
  proof (cases "c = e")
    case True
    with "1.prems" have "res = Some (c, recs)" "vol' = vol" by simp_all
    then show ?thesis by (intro exI [of _ "[]"]) simp
  next
    case ne: False
    show ?thesis
    proof (cases "e < c + recheader_size L")
      case True
      with ne "1.prems" have "res = None" "vol' = vol" by simp_all
      then show ?thesis by (intro exI [of _ "[]"]) simp
    next
      case fits: False
      let ?rec = "take (recheader_size L) (drop c data)"
      let ?ps = "c + recheader_size L"
      let ?pe = "if e < ?ps + unat (DataSize L ?rec) then e else ?ps + unat (DataSize L ?rec)"
      let ?psz = "?pe - ?ps"
      let ?payload = "take ?psz (drop ?ps data)"
      let ?call = "(block, ?rec, ?payload)"
      let ?r0 = "\<lparr>rec_BareosHeader = ?rec, rec_start = 0::nat, rec_size = ?psz, rec_file_index = 0::nat\<rparr>"
      have psz: "?psz = min (unat (DataSize L ?rec)) (e - ?ps)" using fits by auto
      have pe: "?pe = ?ps + ?psz" using fits by auto
      have len: "length ?payload = ?psz" using fits "1.prems"(2) by auto
      obtain r1 vol1 where ad: "append_data vol block ?rec ?payload = (r1, vol1)"
        by (cases "append_data vol block ?rec ?payload")
      have app1: "vol_appends vol1 = vol_appends vol @ [?call]"
        using append_data_appends [OF ad] .
      have cut1: "payloads_cut L data e c (?call # calls) = payloads_cut L data e ?pe calls" for calls
        using fits len "1.prems"(3) psz pe by (simp add: Let_def)
      show ?thesis
      proof (cases r1)
        case None
        with ad ne fits "1.prems"(1) have r: "res = None" "vol' = vol1"
          by (subst (asm) scatter_loop.simps; simp add: Let_def split del: if_split)+
        from ad None have "vol_data vol1 = vol_data vol" using append_data_fail by simp
        with r app1 cut1 [of "[]"] show ?thesis
          by (intro exI [of _ "[?call]"] exI [of _ "[]"]) simp
      next
        case (Some written)
        let ?recs1 = "recs @ [\<lparr>rec_BareosHeader = ?rec, rec_start = loc_begin written,
                        rec_size = ?psz, rec_file_index = loc_file_index written\<rparr>]"
        from ad Some ne fits "1.prems"(1)
        have loop: "scatter_loop L vol1 block data e ?pe ?recs1 = (res, vol')"
          by (subst (asm) scatter_loop.simps) (simp add: Let_def split del: if_split)
        have IH: "\<exists>calls stored.
             vol_appends vol' = vol_appends vol1 @ calls
           \<and> payloads_cut L data e ?pe calls
           \<and> (stored = calls \<or> stored = butlast calls)
           \<and> concat (vol_data vol') = concat (vol_data vol1) @ concat (map call_payload stored)
           \<and> (\<forall>c' recs'. res = Some (c', recs') \<longrightarrow>
                 stored = calls
                 \<and> (\<exists>new. recs' = ?recs1 @ new \<and> map descriptor_record new = map call_record calls))"
          using "1.IH" [OF ne fits refl refl refl refl ad [symmetric] Some loop
                          "1.prems"(2) "1.prems"(3)] .
        then obtain calls stored where
            a: "vol_appends vol' = vol_appends vol1 @ calls"
          and b: "payloads_cut L data e ?pe calls"
          and c: "stored = calls \<or> stored = butlast calls"
          and d: "concat (vol_data vol') = concat (vol_data vol1) @ concat (map call_payload stored)"
          and e: "\<And>c' recs'. res = Some (c', recs') \<Longrightarrow>
                 stored = calls
                 \<and> (\<exists>new. recs' = ?recs1 @ new \<and> map descriptor_record new = map call_record calls)"
          by blast
        from ad Some have cc: "concat (vol_data vol1) = concat (vol_data vol) @ ?payload"
          using append_data_concat by simp
        have c': "?call # stored = ?call # calls \<or> ?call # stored = butlast (?call # calls)"
          using c by (cases calls) auto
        have A: "vol_appends vol' = vol_appends vol @ (?call # calls)" using a app1 by simp
        have B: "payloads_cut L data e c (?call # calls)" using b cut1 by simp
        have D: "concat (vol_data vol') = concat (vol_data vol) @ concat (map call_payload (?call # stored))"
          using d cc by (simp add: call_payload_def)
        have E: "?call # stored = ?call # calls
                 \<and> (\<exists>new. recs' = recs @ new \<and> map descriptor_record new = map call_record (?call # calls))"
          if "res = Some (c', recs')" for c' recs'
        proof -
          from e [OF that] obtain new where n: "stored = calls" "recs' = ?recs1 @ new"
             "map descriptor_record new = map call_record calls" by blast
          let ?new = "\<lparr>rec_BareosHeader = ?rec, rec_start = loc_begin written,
                        rec_size = ?psz, rec_file_index = loc_file_index written\<rparr> # new"
          have "recs' = recs @ ?new" using n by simp
          moreover have "map descriptor_record ?new = map call_record (?call # calls)"
            using n len by (simp add: descriptor_record_def call_record_def)
          ultimately show ?thesis using n(1) by blast
        qed
        from A B c' D E show ?thesis
          by (intro exI [of _ "?call # calls"] exI [of _ "?call # stored"]) blast
      qed
    qed
  qed
qed


lemma scatter_calls:
  assumes "scatter L vol data = (n, vol')"
  shows "\<exists>calls stored.
           vol_appends vol' = vol_appends vol @ calls
         \<and> payloads_cut L data (unat (BlockSize L (take (blockheader_size L) data)))
              (blockheader_size L) calls
         \<and> (stored = calls \<or> stored = butlast calls)
         \<and> concat (vol_data vol') = concat (vol_data vol) @ concat (map call_payload stored)
         \<and> (0 \<le> n \<longrightarrow>
               stored = calls
               \<and> map descriptor_record (drop (length (vol_records vol)) (vol_records vol'))
                   = map call_record calls)"
proof -
  let ?block = "take (blockheader_size L) data"
  let ?bsize = "unat (BlockSize L ?block)"
  show ?thesis
  proof (cases "2 ^ 32 - 1 < length data \<or> length data < blockheader_size L \<or> length data < ?bsize")
    case True
    with assms have "n = - 1" "vol' = vol" by (auto simp: scatter_def Let_def simp del: scatter_loop.simps split: if_splits)
    then show ?thesis by (intro exI [of _ "[]"]) simp
  next
    case False
    then have sz: "?bsize \<le> length data" by simp
    obtain r1 vol1 where loop: "scatter_loop L vol ?block data ?bsize (blockheader_size L) [] = (r1, vol1)"
      by (cases "scatter_loop L vol ?block data ?bsize (blockheader_size L) []")
    from scatter_loop_calls [OF loop sz refl]
    obtain calls stored where
        a: "vol_appends vol1 = vol_appends vol @ calls"
      and b: "payloads_cut L data ?bsize (blockheader_size L) calls"
      and c: "stored = calls \<or> stored = butlast calls"
      and d: "concat (vol_data vol1) = concat (vol_data vol) @ concat (map call_payload stored)"
      and e: "\<And>c' recs'. r1 = Some (c', recs') \<Longrightarrow>
                stored = calls \<and> map descriptor_record recs' = map call_record calls"
      by auto
    from scatter_loop_inv [OF loop sz]
    have recs1: "vol_records vol1 = vol_records vol" by simp
    show ?thesis
    proof (cases r1)
      case None
      with assms False loop have "n = - 1" "vol' = vol1" by (auto simp: scatter_def Let_def simp del: scatter_loop.simps split: if_splits)
      with a b c d show ?thesis by (intro exI [of _ calls] exI [of _ stored]) simp
    next
      case (Some cr)
      obtain current recs where cr: "cr = (current, recs)" by (cases cr)
      obtain r2 vol2 where ar: "append_records vol1 recs = (r2, vol2)"
        by (cases "append_records vol1 recs")
      from append_records_any [OF ar]
      have k2: "vol_appends vol2 = vol_appends vol1" "vol_data vol2 = vol_data vol1" by simp_all
      from e Some cr have st: "stored = calls" "map descriptor_record recs = map call_record calls"
        by simp_all
      show ?thesis
      proof (cases r2)
        case None
        with assms False loop Some cr ar have "n = - 1" "vol' = vol2"
          by (auto simp: scatter_def Let_def simp del: scatter_loop.simps split: if_splits)
        with a b c d k2 show ?thesis by (intro exI [of _ calls] exI [of _ stored]) simp
      next
        case start: (Some start)
        let ?b = "\<lparr>blk_BareosHeader = ?block, blk_start = start, blk_count = length recs\<rparr>"
        obtain r3 vol3 where ab: "append_block vol2 ?b = (r3, vol3)"
          by (cases "append_block vol2 ?b")
        from append_block_any [OF ab]
        have k3: "vol_appends vol3 = vol_appends vol2" "vol_data vol3 = vol_data vol2" by simp_all
        from assms False loop Some cr ar start ab
        have res: "vol' = vol3" "n = (if r3 then int current else - 1)"
          by (cases r3; simp add: scatter_def Let_def del: scatter_loop.simps split: if_splits)+
        have recs': "map descriptor_record (drop (length (vol_records vol)) (vol_records vol'))
                       = map call_record calls" if "0 \<le> n"
        proof -
          from that res have r3 by (auto split: if_splits)
          with ab have "append_block vol2 ?b = (True, vol3)" by simp
          from append_block_True [OF this] have "vol_records vol3 = vol_records vol2" by simp
          moreover from append_records_Some [OF ar [unfolded start]]
          have "vol_records vol2 = vol_records vol1 @ recs" by simp
          ultimately show ?thesis using recs1 res st by simp
        qed
        with a b c d k2 k3 res st show ?thesis
          by (intro exI [of _ calls] exI [of _ stored]) simp
      qed
    qed
  qed
qed

subsection \<open>Payloads are cut at the end of the block\<close>

text \<open>
  C8. For every \<open>scatter\<close>, successful or not: the \<open>append_data\<close> calls it makes are
  the walk \<open>payloads_cut\<close> over the records of the block, so the payload passed for a
  record is exactly the \<open>min(DataSize, end - payload_start)\<close> bytes after its header,
  where \<open>end\<close> is \<open>buf + BlockSize\<close>: a record whose declared \<open>DataSize\<close> runs past the end
  of the block is cut there. The data segments grow by exactly the payloads of the
  calls that succeeded (all of them, or all but the last, which failed). When \<open>scatter\<close>
  succeeds every call succeeded, the record descriptors it appended keep, call by call,
  the record header and the length of the payload that was passed, and they describe
  the records of the block as \<open>records_stored\<close> says.
\<close>

theorem scatter_truncates_payload:
  assumes "scatter L vol data = (n, vol')"
  shows "\<exists>calls stored.
           vol_appends vol' = vol_appends vol @ calls
         \<and> payloads_cut L data (unat (BlockSize L (take (blockheader_size L) data)))
              (blockheader_size L) calls
         \<and> (stored = calls \<or> stored = butlast calls)
         \<and> concat (vol_data vol') = concat (vol_data vol) @ concat (map call_payload stored)
         \<and> (0 \<le> n \<longrightarrow>
               stored = calls
               \<and> map descriptor_record (drop (length (vol_records vol)) (vol_records vol'))
                   = map call_record calls
               \<and> records_stored L vol' data (unat (BlockSize L (take (blockheader_size L) data)))
                   (blockheader_size L) (drop (length (vol_records vol)) (vol_records vol')))"
proof -
  from scatter_calls [OF assms] obtain calls stored where
      c: "vol_appends vol' = vol_appends vol @ calls"
         "payloads_cut L data (unat (BlockSize L (take (blockheader_size L) data)))
            (blockheader_size L) calls"
         "stored = calls \<or> stored = butlast calls"
         "concat (vol_data vol') = concat (vol_data vol) @ concat (map call_payload stored)"
         "0 \<le> n \<longrightarrow> stored = calls
               \<and> map descriptor_record (drop (length (vol_records vol)) (vol_records vol'))
                   = map call_record calls"
    by blast
  have "records_stored L vol' data (unat (BlockSize L (take (blockheader_size L) data)))
          (blockheader_size L) (drop (length (vol_records vol)) (vol_records vol'))" if "0 \<le> n"
    using scatter_success [OF assms that] by auto
  with c show ?thesis by (intro exI [of _ calls] exI [of _ stored]) simp
qed

theorem scatter_truncates_payload_witness:
  "scatter example_format example_volume block64 = (64, example_volume_written)
   \<and> unat (DataSize example_format (take 12 (drop 24 block64))) = 1000000
   \<and> vol_appends example_volume = []
   \<and> vol_appends example_volume_written
       = [(take 24 block64, take 12 (drop 24 block64), take 28 (drop 36 block64))]
   \<and> payloads_cut example_format block64 64 24 (vol_appends example_volume_written)
   \<and> concat (vol_data example_volume_written) = take 28 (drop 36 block64)
   \<and> map descriptor_record (vol_records example_volume_written)
       = [(take 12 (drop 24 block64), 28)]
   \<and> records_stored example_format example_volume_written block64 64 24
        (vol_records example_volume_written)"
  using scatter_truncates_payload [OF example_scatter]
  by (simp add: example_scatter)
     (simp add: example_defs example_volume_written_def block64_def descriptor_record_def
        call_record_def call_payload_def Let_def)

lemma reset_result:
  assumes "reset v = (b, v')"
  shows "if b then vol_blocks v' = [] \<and> vol_records v' = [] \<and> vol_data v' = []
         else vol_blocks v' = vol_blocks v"
  using assms
  by (auto simp: reset_def split: if_splits prod.splits bool.splits dest!: next_io_keeps)

lemma block_number_0: "block_number 0 0 = 0"
  by (simp add: block_number_def)

subsection \<open>Relabelling a volume that holds one block\<close>

text \<open>
  With the cursor at (0,0) and one block in the volume, \<open>d_write\<close> is \<open>reset\<close> followed
  by \<open>scatter\<close>; and a \<open>d_write\<close> that succeeded there went that way.
\<close>

lemma relabel_write_eq:
  assumes "open_volume dev = Some vol" and "dev_file dev = 0" and "block_num dev = 0"
    and "vol_size vol = 1"
  shows "d_write L dev (fd_ctr dev) data
           = (if \<not> is_ok vol then None
              else case reset vol of
                     (False, vol0) \<Rightarrow> Some (- 1, (SetEot dev)\<lparr>open_volume := Some vol0\<rparr>)
                   | (True, vol0) \<Rightarrow>
                       (case scatter L vol0 data of
                          (n, vol') \<Rightarrow> Some (n, (SetEot dev)\<lparr>open_volume := Some vol'\<rparr>)))"
proof (cases "is_ok vol")
  case False
  with assms(1) show ?thesis by (simp add: d_write_def)
next
  case True
  obtain b vol0 where r: "reset vol = (b, vol0)" by (cases "reset vol")
  have cur: "block_number (dev_file (SetEot dev)) (block_num (SetEot dev)) = 0"
    using assms(2,3) by (simp add: SetEot_def block_number_0)
  have dw: "d_write L dev (fd_ctr dev) data
          = (if 0 \<noteq> vol_size vol0 then Some (- 1, (SetEot dev)\<lparr>open_volume := Some vol0\<rparr>)
             else case scatter L vol0 data of
                    (n, vol2) \<Rightarrow> Some (n, (SetEot dev)\<lparr>open_volume := Some vol2\<rparr>))"
    unfolding d_write_def Let_def using assms(1,4) True r cur by simp
  show ?thesis
  proof (cases b)
    case True
    with reset_result [OF r] have "vol_size vol0 = 0" by (simp add: vol_size_def)
    with dw r True \<open>is_ok vol\<close> show ?thesis by simp
  next
    case False
    with reset_result [OF r] assms(4) have "vol_size vol0 = 1" by (simp add: vol_size_def)
    with dw r False \<open>is_ok vol\<close> show ?thesis by simp
  qed
qed


lemma relabel_write_success:
  assumes "open_volume dev = Some vol" and "dev_file dev = 0" and "block_num dev = 0"
    and "vol_size vol = 1"
    and "d_write L dev (fd_ctr dev) data = Some (n, dev')" and "0 \<le> n"
  shows "\<exists>vol0 vol'. reset vol = (True, vol0)
           \<and> scatter L vol0 data = (n, vol')
           \<and> open_volume dev' = Some vol' \<and> vol_size vol' = 1
           \<and> vol_blocks vol' = [\<lparr>blk_BareosHeader = take (blockheader_size L) data, blk_start = 0,
                                  blk_count = length (vol_records vol')\<rparr>]
           \<and> records_stored L vol' data (unat (BlockSize L (take (blockheader_size L) data)))
                (blockheader_size L) (vol_records vol')"
proof -
  from assms have ok: "is_ok vol" by (auto simp: d_write_def split: if_splits)
  obtain b vol0 where r: "reset vol = (b, vol0)" by (cases "reset vol")
  have b: "b"
  proof (rule ccontr)
    assume "\<not> b"
    with reset_result [OF r] have "vol_size vol0 = 1" using assms(4) by (simp add: vol_size_def)
    with assms ok r show False
      by (auto simp: d_write_def Let_def SetEot_def block_number_0)
  qed
  with reset_result [OF r]
  have empty: "vol_blocks vol0 = []" "vol_records vol0 = []" "vol_data vol0 = []" by auto
  then have size0: "vol_size vol0 = 0" by (simp add: vol_size_def)
  obtain n' vol' where sc: "scatter L vol0 data = (n', vol')" by (cases "scatter L vol0 data")
  from assms ok r size0 sc have res: "n' = n" "open_volume dev' = Some vol'"
    by (auto simp: d_write_def Let_def SetEot_def block_number_0)
  from sc res have sc': "scatter L vol0 data = (n, vol')" by simp
  from scatter_success [OF sc' assms(6)] empty
  obtain recs where "vol_blocks vol' = [\<lparr>blk_BareosHeader = take (blockheader_size L) data,
        blk_start = 0, blk_count = length recs\<rparr>]" "vol_records vol' = recs"
      "records_stored L vol' data (unat (BlockSize L (take (blockheader_size L) data)))
         (blockheader_size L) recs"
    by auto
  with r b empty sc' res show ?thesis by (auto simp: vol_size_def)
qed

lemma reset_empty:
  assumes "reset vol = (True, vol0)"
  shows "vol_blocks vol0 = [] \<and> vol_records vol0 = [] \<and> vol_data vol0 = [] \<and> vol_size vol0 = 0"
  using reset_result [OF assms] by (simp add: vol_size_def)

text \<open>
  C5. With the cursor at (0,0) and \<open>vol.size() == 1\<close>, \<open>d_write\<close> on a volume that is in
  order resets the volume and, when the reset succeeded, returns what \<open>scatter\<close> returns
  on the volume the reset left, which is empty (no block, no record, no data,
  \<open>size() == 0\<close>); when the reset failed it returns -1, and on a volume that is not in
  order it stops at its \<open>ASSERT\<close>. So after a successful write the open volume has
  exactly one block descriptor, the one of the new block, its record descriptors are
  exactly the records of the new block, and \<open>size()\<close> is 1.
\<close>

theorem d_write_relabel:
  assumes "open_volume dev = Some vol" and "dev_file dev = 0" and "block_num dev = 0"
    and "vol_size vol = 1"
  shows "d_write L dev (fd_ctr dev) data
           = (if \<not> is_ok vol then None
              else case reset vol of
                     (False, vol0) \<Rightarrow> Some (- 1, (SetEot dev)\<lparr>open_volume := Some vol0\<rparr>)
                   | (True, vol0) \<Rightarrow>
                       (case scatter L vol0 data of
                          (n, vol') \<Rightarrow> Some (n, (SetEot dev)\<lparr>open_volume := Some vol'\<rparr>)))
         \<and> (\<forall>vol0. reset vol = (True, vol0) \<longrightarrow>
               vol_blocks vol0 = [] \<and> vol_records vol0 = [] \<and> vol_data vol0 = []
               \<and> vol_size vol0 = 0)
         \<and> (\<forall>n dev'. d_write L dev (fd_ctr dev) data = Some (n, dev') \<and> 0 \<le> n \<longrightarrow>
               (\<exists>vol0 vol'. reset vol = (True, vol0)
                  \<and> scatter L vol0 data = (n, vol')
                  \<and> open_volume dev' = Some vol' \<and> vol_size vol' = 1
                  \<and> vol_blocks vol'
                      = [\<lparr>blk_BareosHeader = take (blockheader_size L) data, blk_start = 0,
                          blk_count = length (vol_records vol')\<rparr>]
                  \<and> records_stored L vol' data
                       (unat (BlockSize L (take (blockheader_size L) data)))
                       (blockheader_size L) (vol_records vol')))"
proof (intro conjI allI impI)
  show "d_write L dev (fd_ctr dev) data
           = (if \<not> is_ok vol then None
              else case reset vol of
                     (False, vol0) \<Rightarrow> Some (- 1, (SetEot dev)\<lparr>open_volume := Some vol0\<rparr>)
                   | (True, vol0) \<Rightarrow>
                       (case scatter L vol0 data of
                          (n, vol') \<Rightarrow> Some (n, (SetEot dev)\<lparr>open_volume := Some vol'\<rparr>)))"
    using assms by (rule relabel_write_eq)
next
  fix vol0 assume "reset vol = (True, vol0)"
  from reset_empty [OF this]
  show "vol_blocks vol0 = []" "vol_records vol0 = []" "vol_data vol0 = []" "vol_size vol0 = 0"
    by simp_all
next
  fix n dev' assume "d_write L dev (fd_ctr dev) data = Some (n, dev') \<and> 0 \<le> n"
  then have "d_write L dev (fd_ctr dev) data = Some (n, dev')" "0 \<le> n" by simp_all
  with assms show "\<exists>vol0 vol'. reset vol = (True, vol0)
                  \<and> scatter L vol0 data = (n, vol')
                  \<and> open_volume dev' = Some vol' \<and> vol_size vol' = 1
                  \<and> vol_blocks vol'
                      = [\<lparr>blk_BareosHeader = take (blockheader_size L) data, blk_start = 0,
                          blk_count = length (vol_records vol')\<rparr>]
                  \<and> records_stored L vol' data
                       (unat (BlockSize L (take (blockheader_size L) data)))
                       (blockheader_size L) (vol_records vol')"
    by (rule relabel_write_success)
qed


theorem d_write_relabel_witness:
  "open_volume relabel_device = Some example_volume_written
   \<and> dev_file relabel_device = 0 \<and> block_num relabel_device = 0
   \<and> vol_size example_volume_written = 1 \<and> is_ok example_volume_written
   \<and> reset example_volume_written = (True, emptied_volume)
   \<and> scatter example_format emptied_volume block48 = (48, relabelled_volume)
   \<and> d_write example_format relabel_device 3 block48
       = Some (48, (SetEot relabel_device)\<lparr>open_volume := Some relabelled_volume\<rparr>)
   \<and> vol_size relabelled_volume = 1
   \<and> map blk_BareosHeader (vol_blocks relabelled_volume) = [take 24 block48]"
proof -
  have h: "open_volume relabel_device = Some example_volume_written"
      "dev_file relabel_device = 0" "block_num relabel_device = 0" "fd_ctr relabel_device = 3"
    by (simp_all add: relabel_device_def example_device_def)
  have s1: "vol_size example_volume_written = 1"
    by (simp add: vol_size_def example_volume_written_def)
  have ok: "is_ok example_volume_written"
    by (simp add: is_ok_def example_volume_written_def example_volume_def)
  have r: "reset example_volume_written = (True, emptied_volume)"
    by (simp add: reset_def next_io_def emptied_volume_def example_volume_written_def
          example_volume_def)
  have sc: "scatter example_format emptied_volume block48 = (48, relabelled_volume)"
    by (simp add: emptied_volume_def example_volume_written_def relabelled_volume_def
          scatter_def block48_def example_defs Let_def append_data_def next_io_def
          append_records_def append_block_def)
  have s2: "vol_size relabelled_volume = 1"
      "map blk_BareosHeader (vol_blocks relabelled_volume) = [take 24 block48]"
    by (simp_all add: vol_size_def relabelled_volume_def)
  from d_write_relabel [OF h(1) h(2) h(3) s1, of example_format block48, THEN conjunct1]
  have "d_write example_format relabel_device 3 block48
          = Some (48, (SetEot relabel_device)\<lparr>open_volume := Some relabelled_volume\<rparr>)"
    by (simp only: h(4) ok r sc not_True_eq_False if_False prod.case bool.case)
  with h s1 ok r sc s2 show ?thesis by (simp only: simp_thms)
qed

subsection \<open>gather and failing reads\<close>

text \<open>
  A failing \<open>read_block\<close> and a failing \<open>read_data\<close> make \<open>gather\<close> return -1.
\<close>

lemma gather_read_block_failure:
  "fst (read_block vol blocknum) = None \<Longrightarrow> fst (gather L vol blocknum data) = - 1"
  by (auto simp: gather_def split: prod.splits)

lemma gather_loop_read_data_failure:
  assumes "buf_write buf (rec_BareosHeader r) = Some buf1"
    and "fst (read_data vol (rec_file_index r) (rec_start r) (rec_size r)
               (fst (buf_reserve buf1 (rec_size r)))) = None"
  shows "fst (gather_loop vol (r # rs) buf) = False"
  using assms by (auto split: prod.splits option.splits)

lemma gather_loop_failure:
  "fst (gather_loop vol2 recs buf1) = False \<Longrightarrow>
   read_block vol blocknum = (Some block, vol1) \<Longrightarrow>
   buf_write \<lparr>buf_mem = data, buf_current = 0\<rparr> (blk_BareosHeader block) = Some buf1 \<Longrightarrow>
   read_records vol1 (blk_start block) (replicate (blk_count block) (zero_record L)) = (ok, recs, vol2) \<Longrightarrow>
   fst (gather L vol blocknum data) = - 1"
  by (auto simp: gather_def split: prod.splits option.splits bool.splits)

text \<open>
  C2. The claim that \<open>gather\<close> returns an error whenever one of its reads fails does not
  hold for \<open>read_records\<close>, whose result the code drops. On the volume that holds the
  block of scenario 2 and on which the second I/O operation fails, \<open>read_block\<close>
  succeeds, \<open>read_records\<close> fails and leaves the value-initialised descriptor in the
  vector, and \<open>gather\<close> returns 36 as a success: the block header followed by a record
  header of zeros, and no payload.
\<close>

theorem gather_ignores_read_records_failure:
  "read_block faulty_volume 0
     = (Some \<lparr>blk_BareosHeader = take 24 block64, blk_start = 0, blk_count = 1\<rparr>,
        example_volume_written\<lparr>vol_io := [False]\<rparr>)
   \<and> read_records (example_volume_written\<lparr>vol_io := [False]\<rparr>) 0 [zero_record example_format]
     = (False, [zero_record example_format], example_volume_written\<lparr>vol_io := [], vol_ok := False\<rparr>)
   \<and> gather example_format faulty_volume 0 (replicate 64 255)
     = (36, take 24 block64 @ replicate 12 0 @ replicate 28 255,
        example_volume_written\<lparr>vol_io := [], vol_ok := False\<rparr>)"
  by (simp add: gather_def faulty_volume_def example_volume_written_def example_volume_def
        read_block_def read_records_def read_data_def next_io_def zero_record_def
        buf_write_def buf_store_def buf_reserve_def block64_def
        example_format_def blockheader_size_def recheader_size_def header_size_def
        BlockSize_def DataSize_def size_field_def be32_def)

subsection \<open>Truncating with a secure-erase command\<close>

lemma example_d_open:
  "d_open example_host example_device ''/dedup/Full-0001'' 416
     = (4, example_device\<lparr>open_volume := Some (fresh_volume 8192), fd_ctr := 4\<rparr>, [])"
  by (simp add: d_open_def example_device_def example_host_def example_util_def parse_def
        options_find_def unknown_options_warning_def default_dedup_options_def volume_ctor_def
        empty_volume_def next_io_def is_ok_def fresh_volume_def example_volume_def next_fd_def)

lemma erase_files_all:
  "erase_files H files = (True, evs) \<Longrightarrow> evs = map Erased files"
  by (induction files arbitrary: evs) (auto split: if_splits prod.splits)

lemma collect_files_all:
  "collect_files entries = Some files \<Longrightarrow> files = map fst entries \<and> (\<forall>e\<in>set entries. \<not> snd e)"
  by (induction entries arbitrary: files rule: collect_files.induct)
     (auto split: if_splits option.splits)

lemma delete_volume_True:
  assumes "delete_volume H path = (True, evs)"
  shows "\<exists>entries. directory H path = Some entries \<and> (\<forall>e\<in>set entries. \<not> snd e)
           \<and> evs = map (Erased \<circ> fst) entries @ [Removed path]"
  using assms
  by (auto simp: delete_volume_def split: option.splits prod.splits bool.splits
           dest!: erase_files_all collect_files_all)

lemma d_truncate_secure_erase:
  assumes "open_volume dev = Some vol" and "secure_erase_cmdline H \<noteq> None"
    and "d_truncate H dev = Some (True, dev', evs)"
  shows "\<exists>entries. directory H (name vol) = Some entries
           \<and> evs = map (Erased \<circ> fst) entries @ [Removed (name vol)]
           \<and> open_mode dev' = CREATE_READ_WRITE
           \<and> open_volume dev'
               = Some (volume_ctor H (name vol) CREATE_READ_WRITE (get_permissions vol)
                         (dedup_block_size dev))"
  using assms
  by (auto simp: d_truncate_def Let_def split: if_splits prod.splits bool.splits
           dest!: delete_volume_True)

lemma d_truncate_reset:
  assumes "open_volume dev = Some vol" and "is_ok vol" and "secure_erase_cmdline H = None"
  shows "d_truncate H dev = Some (fst (reset vol), dev\<lparr>open_volume := Some (snd (reset vol))\<rparr>, [])"
  using assms by (auto simp: d_truncate_def split: prod.splits)

text \<open>
  C3. The claim that the volume is recreated with the prior volume's block size does
  not hold: \<open>d_truncate\<close> passes \<open>device_resource->dedup_block_size\<close>, while \<open>d_open\<close>
  takes the block size from the device options. A device opened with
  \<open>blocksize=8192\<close> on a resource whose \<open>dedup_block_size\<close> is 4096 holds a volume of
  block size 8192; \<open>d_truncate\<close> erases the four files, removes the directory, and
  recreates the volume with the prior permissions and block size 4096.
\<close>

theorem d_truncate_changes_block_size:
  "d_open example_host example_device ''/dedup/Full-0001'' 416
     = (4, example_device\<lparr>open_volume := Some (fresh_volume 8192), fd_ctr := 4\<rparr>, [])
   \<and> d_truncate example_host (example_device\<lparr>open_volume := Some (fresh_volume 8192), fd_ctr := 4\<rparr>)
     = Some (True, example_device\<lparr>open_volume := Some (fresh_volume 4096), fd_ctr := 4\<rparr>,
             [Erased ''/dedup/Full-0001/config'', Erased ''/dedup/Full-0001/blocks'',
              Erased ''/dedup/Full-0001/records'', Erased ''/dedup/Full-0001/data-0'',
              Removed ''/dedup/Full-0001''])
   \<and> vol_blocksize (fresh_volume 8192) = 8192 \<and> vol_blocksize (fresh_volume 4096) = 4096"
  by (simp add: example_d_open)
     (simp add: d_truncate_def example_device_def example_host_def delete_volume_def
        volume_ctor_def empty_volume_def next_io_def is_ok_def fresh_volume_def example_volume_def
        name_def get_permissions_def Let_def)

subsection \<open>Parsing the device options\<close>

lemma named_in_list:
  assumes "(k, x) \<in> set options"
  shows "sublist k (concat (map (\<lambda>(opt, _). opt @ '' '') options))"
proof -
  from assms obtain ys zs where "options = ys @ (k, x) # zs" by (auto dest: split_list)
  then have "concat (map (\<lambda>(opt, _). opt @ '' '') options)
      = concat (map (\<lambda>(opt, _). opt @ '' '') ys) @ k @ ('' '' @ concat (map (\<lambda>(opt, _). opt @ '' '') zs))"
    by simp
  then show ?thesis unfolding sublist_def by blast
qed

lemma unknown_options_named:
  assumes "(k, x) \<in> set options"
  shows "sublist k (warnings (unknown_options_warning result options))"
proof -
  from assms have ne: "0 < length options" by (cases options) auto
  from named_in_list [OF assms] obtain ps ss
    where "concat (map (\<lambda>(opt, _). opt @ '' '') options) = ps @ k @ ss"
    unfolding sublist_def by blast
  then have "warnings (unknown_options_warning result options)
      = (warnings result @ ''Unknown options: '' @ ps) @ k @ (ss @ [CHR 0x0A])"
    using ne by (simp add: unknown_options_warning_def)
  then show ?thesis unfolding sublist_def by blast
qed

lemma unknown_options_blocksize:
  "blocksize (unknown_options_warning result options) = blocksize result
   \<and> (\<exists>w. warnings (unknown_options_warning result options) = warnings result @ w)"
  by (simp add: unknown_options_warning_def)

lemma options_find_matches:
  "options_find U options k = Some e \<Longrightarrow> key_matches U (fst e) k \<and> e \<in> set options"
  by (auto simp: options_find_def find_Some_iff)

text \<open>
  C9, as amended. For every option string that \<open>parse_options\<close> accepts: if no key
  matches \<open>blocksize\<close>, \<open>parse\<close> succeeds with block size 4096 and warnings that start
  with the line "Blocksize was not set explicitly; set to default 4k"; if the value of
  \<open>blocksize\<close> is not a size, \<open>parse\<close> fails with "bad block size: " followed by the
  value; and whenever \<open>parse\<close> succeeds, every key that does not match \<open>blocksize\<close> is
  named in the warnings.
\<close>

theorem parse_blocksize_and_unknown_keys:
  assumes "parse_options U v = Inr options"
  shows "(options_find U options ''blocksize'' = None \<longrightarrow>
           (\<exists>w. parse U v = Inr \<lparr>blocksize = 4096,
                   warnings = ''Blocksize was not set explicitly; set to default 4k'' @ [CHR 0x0A] @ w\<rparr>))
       \<and> (\<forall>k val. options_find U options ''blocksize'' = Some (k, val)
                   \<and> size_to_uint64 U val = None \<longrightarrow>
             parse U v = Inl (''bad block size: '' @ val))
       \<and> (\<forall>r. parse U v = Inr r \<longrightarrow>
             (\<forall>kv\<in>set options. \<not> key_matches U (fst kv) ''blocksize'' \<longrightarrow>
                 sublist (fst kv) (warnings r)))"
proof (intro conjI allI impI ballI)
  assume none: "options_find U options ''blocksize'' = None"
  from unknown_options_blocksize [of "default_dedup_options
        \<lparr>warnings := warnings default_dedup_options
           @ ''Blocksize was not set explicitly; set to default 4k'' @ [CHR 0x0A]\<rparr>" options]
  obtain w where "warnings (unknown_options_warning (default_dedup_options
        \<lparr>warnings := warnings default_dedup_options
           @ ''Blocksize was not set explicitly; set to default 4k'' @ [CHR 0x0A]\<rparr>) options)
      = (''Blocksize was not set explicitly; set to default 4k'' @ [CHR 0x0A]) @ w"
    by (auto simp: default_dedup_options_def)
  with assms none show "\<exists>w. parse U v = Inr \<lparr>blocksize = 4096,
      warnings = ''Blocksize was not set explicitly; set to default 4k'' @ [CHR 0x0A] @ w\<rparr>"
    by (intro exI [of _ w])
       (simp add: parse_def unknown_options_warning_def default_dedup_options_def)
next
  fix k val
  assume "options_find U options ''blocksize'' = Some (k, val) \<and> size_to_uint64 U val = None"
  with assms show "parse U v = Inl (''bad block size: '' @ val)"
    by (simp add: parse_def)
next
  fix r kv
  assume r: "parse U v = Inr r" and kv: "kv \<in> set options"
    and unknown: "\<not> key_matches U (fst kv) ''blocksize''"
  obtain k x where kx: "kv = (k, x)" by (cases kv)
  show "sublist (fst kv) (warnings r)"
  proof (cases "options_find U options ''blocksize''")
    case None
    with assms r have "r = unknown_options_warning
        (default_dedup_options\<lparr>warnings := warnings default_dedup_options
           @ ''Blocksize was not set explicitly; set to default 4k'' @ [CHR 0x0A]\<rparr>) options"
      by (simp add: parse_def)
    with kv kx show ?thesis by (simp add: unknown_options_named)
  next
    case (Some e)
    obtain k' val where e: "e = (k', val)" by (cases e)
    from Some assms r e obtain bs where bs: "size_to_uint64 U val = Some bs"
      by (cases "size_to_uint64 U val") (auto simp: parse_def)
    with Some assms r e have
      "r = unknown_options_warning (default_dedup_options\<lparr>blocksize := unat bs\<rparr>)
             (remove1 (k', val) options)"
      by (simp add: parse_def)
    moreover from options_find_matches [OF Some] unknown e kx have "kv \<noteq> (k', val)" by auto
    with kv kx have "(k, x) \<in> set (remove1 (k', val) options)" by simp
    ultimately show ?thesis using kx by (simp add: unknown_options_named)
  qed
qed

theorem parse_blocksize_and_unknown_keys_witness:
  "parse_options example_util ''foo=1,bar=2'' = Inr [(''bar'', ''2''), (''foo'', ''1'')]
   \<and> options_find example_util [(''bar'', ''2''), (''foo'', ''1'')] ''blocksize'' = None
   \<and> parse example_util ''foo=1,bar=2''
       = Inr \<lparr>blocksize = 4096,
              warnings = ''Blocksize was not set explicitly; set to default 4k'' @ [CHR 0x0A]
                         @ ''Unknown options: bar foo '' @ [CHR 0x0A]\<rparr>
   \<and> sublist ''foo'' (''Blocksize was not set explicitly; set to default 4k'' @ [CHR 0x0A]
                         @ ''Unknown options: bar foo '' @ [CHR 0x0A])
   \<and> parse_options example_util ''blocksize=abc,foo=1'' = Inr [(''blocksize'', ''abc''), (''foo'', ''1'')]
   \<and> parse example_util ''blocksize=abc,foo=1'' = Inl ''bad block size: abc''"
proof -
  have po: "parse_options example_util ''foo=1,bar=2'' = Inr [(''bar'', ''2''), (''foo'', ''1'')]"
    by (simp add: example_util_def)
  have pv: "parse example_util ''foo=1,bar=2''
       = Inr \<lparr>blocksize = 4096,
              warnings = ''Blocksize was not set explicitly; set to default 4k'' @ [CHR 0x0A]
                         @ ''Unknown options: bar foo '' @ [CHR 0x0A]\<rparr>"
    by (simp add: parse_def example_util_def options_find_def unknown_options_warning_def
          default_dedup_options_def)
  have km: "\<not> key_matches example_util (fst (''foo'', ''1'')) ''blocksize''"
    by (simp add: example_util_def)
  have po2: "parse_options example_util ''blocksize=abc,foo=1''
               = Inr [(''blocksize'', ''abc''), (''foo'', ''1'')]"
    by (simp add: example_util_def)
  have f2: "options_find example_util [(''blocksize'', ''abc''), (''foo'', ''1'')] ''blocksize''
              = Some (''blocksize'', ''abc'') \<and> size_to_uint64 example_util ''abc'' = None"
    by (simp add: example_util_def options_find_def)
  from parse_blocksize_and_unknown_keys [OF po] pv km
  have "sublist ''foo'' (''Blocksize was not set explicitly; set to default 4k'' @ [CHR 0x0A]
                         @ ''Unknown options: bar foo '' @ [CHR 0x0A])"
    by auto
  moreover from parse_blocksize_and_unknown_keys
                  [OF po2, THEN conjunct2, THEN conjunct1, rule_format, OF f2]
  have "parse example_util ''blocksize=abc,foo=1'' = Inl ''bad block size: abc''"
    by simp
  moreover have "options_find example_util [(''bar'', ''2''), (''foo'', ''1'')] ''blocksize'' = None"
    by (simp add: example_util_def options_find_def)
  ultimately show ?thesis using po pv po2 by simp
qed

text \<open>
  C9 as stated fails where the value of \<open>blocksize\<close> is malformed and another key is
  unknown: \<open>parse\<close> returns the error and no warning names the unknown key.
\<close>

theorem parse_unknown_key_unnamed_counterexample:
  "\<not> (\<forall>U v options. parse_options U v = Inr options \<longrightarrow>
        (\<forall>kv\<in>set options. \<not> key_matches U (fst kv) ''blocksize'' \<longrightarrow>
           (\<exists>r. parse U v = Inr r \<and> sublist (fst kv) (warnings r))))"
proof
  assume all: "\<forall>U v options. parse_options U v = Inr options \<longrightarrow>
        (\<forall>kv\<in>set options. \<not> key_matches U (fst kv) ''blocksize'' \<longrightarrow>
           (\<exists>r. parse U v = Inr r \<and> sublist (fst kv) (warnings r)))"
  have po2: "parse_options example_util ''blocksize=abc,foo=1''
               = Inr [(''blocksize'', ''abc''), (''foo'', ''1'')]"
    by (simp add: example_util_def)
  have "\<not> key_matches example_util (fst (''foo'', ''1'')) ''blocksize''"
    by (simp add: example_util_def)
  with all po2 have "\<exists>r. parse example_util ''blocksize=abc,foo=1'' = Inr r"
    by (metis list.set_intros(1,2))
  moreover have "parse example_util ''blocksize=abc,foo=1'' = Inl ''bad block size: abc''"
    by (simp add: parse_def example_util_def options_find_def)
  ultimately show False by simp
qed

section \<open>Properties of the virtual backup\<close>

subsection \<open>Decimal texts and the consistency checker\<close>

declare decimal.simps [simp del]

lemma digit_zero: "n < 10 \<Longrightarrow> (''0123456789'' ! n = CHR ''0'') = (n = 0)"
proof -
  assume "n < 10"
  then consider "n = 0" | "n = 1" | "n = 2" | "n = 3" | "n = 4" | "n = 5" | "n = 6" | "n = 7"
    | "n = 8" | "n = 9"
    by atomize_elim arith
  then show ?thesis by cases simp_all
qed

lemma decimal_nonempty: "decimal n \<noteq> []"
  by (subst decimal.simps) simp

lemma first_char_append: "xs \<noteq> [] \<Longrightarrow> first_char (xs @ ys) = first_char xs"
  by (cases xs) (simp_all add: first_char_def)

lemma first_char_decimal: "(first_char (decimal n) = CHR ''0'') = (n = 0)"
proof (induction n rule: decimal.induct)
  case (1 n)
  show ?case
  proof (cases "n < 10")
    case True
    then show ?thesis
      by (subst decimal.simps) (simp add: first_char_def digit_zero)
  next
    case False
    then have "first_char (decimal n) = first_char (decimal (n div 10))"
      by (subst decimal.simps) (simp add: first_char_append decimal_nonempty)
    with "1.IH" False show ?thesis by simp
  qed
qed

lemma first_char_decimal_int: "(first_char (decimal_int i) = CHR ''0'') = (i = 0)"
  by (auto simp: decimal_int_def first_char_decimal) (simp add: first_char_def)

lemma cc_fold:
  "JobList (foldl cc_handler cc rows) = JobList cc @ map col_JobId rows
   \<and> JobsWithPurgedFiles (foldl cc_handler cc rows)
       = JobsWithPurgedFiles cc
         @ map col_JobId (filter (\<lambda>row. first_char (col_PurgedFiles row) \<noteq> CHR ''0'') rows)"
  by (induction rows arbitrary: cc) (simp_all add: cc_handler_def Let_def)

lemma emit_foldl:
  "foldl (\<lambda>w x. emit (f x) w) w xs = w\<lparr>trace := trace w @ map f xs\<rparr>"
  by (induction xs arbitrary: w) (simp_all add: emit_def)

lemma purged_of_rows:
  "map col_JobId (filter (\<lambda>row. first_char (col_PurgedFiles row) \<noteq> CHR ''0'') (map row_text rs))
     = map (\<lambda>r. decimal (JobId r)) (filter (\<lambda>r. PurgedFiles r \<noteq> 0) rs)"
  by (induction rs) (simp_all add: row_text_def first_char_decimal_int)

subsection \<open>Events and the job list\<close>

lemma GetVfJobids_emit [simp]: "GetVfJobids E (emit e w) = GetVfJobids E w"
  by (simp add: GetVfJobids_def emit_def split: option.splits)

lemma GetVfJobids_trace [simp]: "GetVfJobids E (w\<lparr>trace := t\<rparr>) = GetVfJobids E w"
  by (simp add: GetVfJobids_def split: option.splits)

lemma emit_fields [simp]: "jcr (emit e w) = jcr w" "catalog (emit e w) = catalog w"
  "trace (emit e w) = trace w @ [e]"
  by (simp_all add: emit_def)

lemma emit_as_update: "emit e w = w\<lparr>trace := trace w @ [e]\<rparr>"
  by (simp add: emit_def)

lemma listed_purged:
  "listed_jobs example_env purged_world = take 3 purged_catalog"
  by (simp add: listed_jobs_def purged_world_def example_env_def GetVfJobids_def example_jcr_def
        purged_catalog_def example_job_def to_JobId_def)

lemma decimal_101: "decimal 101 = ''101''" "decimal 100 = ''100''" "decimal 200 = ''200''"
  by (simp_all add: decimal.simps)


subsection \<open>Purged jobs stop the run\<close>

text \<open>
  C6. When the storage lists of the job are configured and the consistency query
  returns as many jobs as the consolidation list has entries (no job is missing from
  the catalog), then, if one of these jobs has \<open>PurgedFiles \<noteq> 0\<close>, the run phase returns
  false; what it adds to the trace holds, for each such job, the error message
  \<open>Files for JobId <id> have been purged from the catalog\<close>, and the fatal message
  \<open>At least one job's files were pruned from the catalog.\<close>, and it holds no connection
  to the storage daemon.
\<close>

theorem purged_jobs_fail_the_run:
  assumes "read_storage_list (jcr w) \<noteq> None" and "write_storage_list (jcr w) \<noteq> None"
    and "length (listed_jobs E w) = length (split_string E (GetVfJobids E w) CHR '','')"
    and "\<exists>r\<in>set (listed_jobs E w). PurgedFiles r \<noteq> 0"
  shows "\<exists>new. DoNativeVbackup E w = (False, w\<lparr>trace := trace w @ new\<rparr>)
           \<and> (\<forall>r\<in>set (listed_jobs E w). PurgedFiles r \<noteq> 0 \<longrightarrow>
                 Jmsg M_ERROR (''Files for JobId '' @ decimal (JobId r)
                                 @ '' have been purged from the catalog'' @ NL) \<in> set new)
           \<and> Jmsg M_FATAL (''At least one job'' @ apostrophe
                             @ ''s files were pruned from the catalog.'' @ NL) \<in> set new
           \<and> ConnectToStorageDaemon_call \<notin> set new"
proof -
  let ?jobids = "GetVfJobids E w"
  let ?list = "split_string E ?jobids CHR '',''"
  let ?purged = "filter (\<lambda>r. PurgedFiles r \<noteq> 0) (listed_jobs E w)"
  let ?start = "Jmsg M_INFO (''Start Virtual Backup JobId '' @ decimal (jcr_JobId (jcr w))
                   @ '', Job='' @ Job (jcr w) @ NL)"
  let ?warn = "if \<not> accurate (jcr w)
               then [Jmsg M_WARNING (''This Job is not an Accurate backup so is not equivalent to a Full ''
                             @ ''backup.'' @ NL)] else []"
  let ?query = "SqlQuery (''SELECT JobId, Type, ClientId, FilesetId, PurgedFiles ''
                             @ ''FROM Job WHERE JobId IN ('' @ ?jobids @ '')'')"
  let ?msg = "\<lambda>j. Jmsg M_ERROR (''Files for JobId '' @ j @ '' have been purged from the catalog'' @ NL)"
  let ?fatal = "Jmsg M_FATAL (''At least one job'' @ apostrophe
                             @ ''s files were pruned from the catalog.'' @ NL)"
  let ?new = "[?start] @ ?warn @ [?query] @ map (\<lambda>r. ?msg (decimal (JobId r))) ?purged @ [?fatal]"
  let ?cc = "foldl cc_handler \<lparr>JobList = [], JobsWithPurgedFiles = []\<rparr>
               (consistency_rows E (catalog w) ?jobids)"
  have rows: "consistency_rows E (catalog w) ?jobids = map row_text (listed_jobs E w)"
    by (simp add: consistency_rows_def listed_jobs_def)
  have jl: "JobList ?cc = map (\<lambda>r. decimal (JobId r)) (listed_jobs E w)"
    using cc_fold [of "\<lparr>JobList = [], JobsWithPurgedFiles = []\<rparr>"] rows
    by (simp add: row_text_def comp_def)
  have pl: "JobsWithPurgedFiles ?cc = map (\<lambda>r. decimal (JobId r)) ?purged"
    using cc_fold [of "\<lparr>JobList = [], JobsWithPurgedFiles = []\<rparr>"] rows
    by (simp add: purged_of_rows)
  have num: "CheckNumJobs ?cc (length ?list)"
    using jl assms(3) by (simp add: CheckNumJobs_def)
  from assms(4) have pne: "?purged \<noteq> []" by (auto simp: filter_empty_conv)
  then have notpurged: "\<not> CheckPurgedFiles ?cc" using pl by (simp add: CheckPurgedFiles_def)
  from assms(3,4) have lne: "?list \<noteq> []" by auto
  from assms(1,2) obtain rs ws where st: "read_storage_list (jcr w) = Some rs"
      "write_storage_list (jcr w) = Some ws"
    by auto
  have run: "DoNativeVbackup E w = (False, w\<lparr>trace := trace w @ ?new\<rparr>)"
    using st lne num notpurged pl
    by (simp add: DoNativeVbackup_def Let_def emit_foldl comp_def)
  have "\<forall>r\<in>set (listed_jobs E w). PurgedFiles r \<noteq> 0 \<longrightarrow> ?msg (decimal (JobId r)) \<in> set ?new"
    by auto
  moreover have "?fatal \<in> set ?new" by simp
  moreover have "ConnectToStorageDaemon_call \<notin> set ?new" by auto
  ultimately show ?thesis using run by blast
qed

theorem purged_jobs_fail_the_run_witness:
  "fst (DoNativeVbackup example_env purged_world) = False
   \<and> Jmsg M_ERROR (''Files for JobId 101 have been purged from the catalog'' @ NL)
        \<in> set (trace (snd (DoNativeVbackup example_env purged_world)))
   \<and> ConnectToStorageDaemon_call \<notin> set (trace (snd (DoNativeVbackup example_env purged_world)))"
proof -
  have a: "read_storage_list (jcr purged_world) \<noteq> None"
    and b: "write_storage_list (jcr purged_world) \<noteq> None"
    by (simp_all add: purged_world_def example_jcr_def)
  have c: "length (listed_jobs example_env purged_world)
             = length (split_string example_env (GetVfJobids example_env purged_world) CHR '','')"
    by (simp add: listed_purged)
       (simp add: purged_world_def example_env_def GetVfJobids_def example_jcr_def purged_catalog_def)
  have j: "example_job 101 73 1 ''2024-01-02 01:00:00'' ''2024-01-02 01:10:00'' 1704157200
            \<in> set (listed_jobs example_env purged_world)"
    by (simp add: listed_purged purged_catalog_def)
  then have d: "\<exists>r\<in>set (listed_jobs example_env purged_world). PurgedFiles r \<noteq> 0"
    by (rule bexI [rotated]) (simp add: example_job_def)
  from purged_jobs_fail_the_run [OF a b c d] obtain new where
    new: "DoNativeVbackup example_env purged_world = (False, purged_world\<lparr>trace := trace purged_world @ new\<rparr>)"
      "\<forall>r\<in>set (listed_jobs example_env purged_world). PurgedFiles r \<noteq> 0 \<longrightarrow>
          Jmsg M_ERROR (''Files for JobId '' @ decimal (JobId r)
                          @ '' have been purged from the catalog'' @ NL) \<in> set new"
      "ConnectToStorageDaemon_call \<notin> set new"
    by blast
  from new(2) j have "Jmsg M_ERROR (''Files for JobId '' @ decimal 101
                          @ '' have been purged from the catalog'' @ NL) \<in> set new"
    by (auto simp: example_job_def)
  with new(1,3) show ?thesis by (simp add: decimal_101 purged_world_def)
qed

text \<open>
  In \<open>purged_missing_world\<close> the list is \<open>100,101\<close>; job 101 has its files purged and job
  100 has no row. The run fails on the missing job and returns before it looks at the
  purged files: no message names job 101.
\<close>

theorem purged_job_unnamed_counterexample:
  "example_job 101 73 1 ''2024-01-02 01:00:00'' ''2024-01-02 01:10:00'' 1704157200
     \<in> set (catalog purged_missing_world)
   \<and> PurgedFiles (example_job 101 73 1 ''2024-01-02 01:00:00'' ''2024-01-02 01:10:00'' 1704157200)
       = 1
   \<and> GetVfJobids example_env purged_missing_world = ''100,101''
   \<and> fst (DoNativeVbackup example_env purged_missing_world) = False
   \<and> Jmsg M_ERROR (''Files for JobId 101 have been purged from the catalog'' @ NL)
        \<notin> set (trace (snd (DoNativeVbackup example_env purged_missing_world)))
   \<and> trace (snd (DoNativeVbackup example_env purged_missing_world))
       = [Jmsg M_INFO (''Start Virtual Backup JobId 200, Job=consolidate'' @ NL),
          SqlQuery ''SELECT JobId, Type, ClientId, FilesetId, PurgedFiles FROM Job WHERE JobId IN (100,101)'',
          Jmsg M_ERROR (''JobId 100 is not present in the catalog'' @ NL),
          Jmsg M_FATAL (''Jobs missing from catalog. Cannot continue.'' @ NL)]"
  by (simp add: DoNativeVbackup_def purged_missing_world_def example_env_def GetVfJobids_def
        example_jcr_def purged_missing_catalog_def example_job_def to_JobId_def
        consistency_rows_def row_text_def cc_handler_def CheckNumJobs_def JobListDiff_def
        decimal.simps decimal_int_def first_char_def emit_def Let_def NL_def
        less_eq_char_def less_char_def)

subsection \<open>The steps of the cleanup\<close>

lemma termination_report_keeps [simp]:
  "jcr (termination_report E w) = jcr w" "catalog (termination_report E w) = catalog w"
  by (simp_all add: termination_report_def Let_def)

lemma termination_report_trace: "\<exists>post. trace (termination_report E w) = trace w @ post"
  by (simp add: termination_report_def Let_def)

lemma termination_report_prefix: "prefix (trace w) (trace (termination_report E w))"
  using termination_report_trace [of E w] by (auto simp: prefix_def)

lemma report_prefixI: "prefix t (trace w) \<Longrightarrow> prefix t (trace (termination_report E w))"
  using termination_report_prefix [of w E] by (metis prefix_order.trans)

lemma update_own_row_ids [simp]: "map JobId (update_own_row cat jobid f) = map JobId cat"
  by (induction cat) (simp_all add: update_own_row_def)

lemma update_job_times_ids [simp]: "map JobId (update_job_times cat jobid st et td) = map JobId cat"
  by (induction cat) (simp_all add: update_job_times_def)









subsection \<open>A run that returns true\<close>





subsection \<open>Level of the first job, times of the last job\<close>






end
